theory Spec2Isabelle
  imports Main "HOL-Library.Word"
begin

unbundle bit_operations_syntax

section \<open>Errors\<close>

text \<open>
  Every error value the package can return.  The constructors name the origin of the
  error: the JSON decoder of the standard library (\<open>SyntaxError\<close>,
  \<open>UnmarshalTypeError\<close>, \<open>UnsupportedValueError\<close>), \<open>strconv\<close>
  (\<open>ErrSyntax\<close>, \<open>ErrRange\<close>), the time parser (\<open>ParseError\<close>) and the
  errors the package builds itself (\<open>CannotUnmarshal\<close> from \<open>fmt.Errorf\<close>,
  \<open>InvalidInput\<close> and \<open>UnsupportedSerialization\<close> from \<open>errors.New\<close>) and the
  refusal of \<open>Time.MarshalText\<close> (\<open>YearOutOfRange\<close>).
\<close>

datatype error =
    SyntaxError
  | UnmarshalTypeError string
  | UnsupportedValueError
  | ErrSyntax string
  | ErrRange string
  | ParseError string
  | CannotUnmarshal string
  | InvalidInput string
  | UnsupportedSerialization
  | YearOutOfRange

section \<open>The functions of \<open>strconv\<close> and \<open>strings\<close> the package calls\<close>

type_synonym int64 = "64 word"

definition isDigit :: "char \<Rightarrow> bool" where
  "isDigit c = (48 \<le> (of_char c :: nat) \<and> (of_char c :: nat) \<le> 57)"

definition digitVal :: "char \<Rightarrow> int" where
  "digitVal c = (of_char c :: int) - 48"

text \<open>
  \<open>strconv.ParseUint(s, 10, 64)\<close>, the loop over the characters: a character that is
  not a decimal digit is a syntax error with value 0; a value that leaves 64 bits is a
  range error with the largest value, returned at once (the characters after it are not
  looked at).  The accumulator is an unbounded integer, the two overflow tests of the
  source (\<open>n >= cutoff\<close> and \<open>n1 < n || n1 > maxVal\<close>) being written on it.
\<close>

datatype numerr = NumSyntax | NumRange

fun ParseUint_loop :: "string \<Rightarrow> int \<Rightarrow> int \<times> numerr option" where
  "ParseUint_loop [] n = (n, None)"
| "ParseUint_loop (c # cs) n =
     (if \<not> isDigit c then (0, Some NumSyntax)
      else if n \<ge> (2 ^ 64 - 1) div 10 + 1 then (2 ^ 64 - 1, Some NumRange)
      else if n * 10 + digitVal c > 2 ^ 64 - 1 then (2 ^ 64 - 1, Some NumRange)
      else ParseUint_loop cs (n * 10 + digitVal c))"

definition ParseUint :: "string \<Rightarrow> int \<times> numerr option" where
  "ParseUint s = (if s = [] then (0, Some NumSyntax) else ParseUint_loop s 0)"

text \<open>
  \<open>strconv.ParseInt(s, 10, 64)\<close>: an optional sign, then \<open>ParseUint\<close>; a syntax error
  gives 0, a value outside the signed range gives the nearest bound and a range error.
  The error carries the whole input, as \<open>NumError.Num\<close> does.
\<close>

definition ParseInt :: "string \<Rightarrow> int64 \<times> error option" where
  "ParseInt s =
     (if s = [] then (0, Some (ErrSyntax s))
      else
        let neg = (hd s = CHR ''-'');
            s1 = (if hd s = CHR ''+'' \<or> hd s = CHR ''-'' then tl s else s);
            (un, err) = ParseUint s1
        in if err = Some NumSyntax then (0, Some (ErrSyntax s))
           else if \<not> neg \<and> un \<ge> 2 ^ 63 then (word_of_int (2 ^ 63 - 1), Some (ErrRange s))
           else if neg \<and> un > 2 ^ 63 then (word_of_int (- (2 ^ 63)), Some (ErrRange s))
           else if neg then (word_of_int (- un), None)
           else (word_of_int un, None))"

text \<open>\<open>strconv.FormatInt(i, 10)\<close>: the decimal digits of the magnitude, with a minus
  sign for a negative value.\<close>

definition digitChar :: "int \<Rightarrow> char" where
  "digitChar d = ''0123456789'' ! nat d"

function formatBits :: "int \<Rightarrow> string" where
  "formatBits n =
     (if n < 10 then [digitChar n]
      else formatBits (n div 10) @ [digitChar (n mod 10)])"
  by pat_completeness auto
termination
  by (relation "measure nat") auto

declare formatBits.simps [simp del]

definition FormatInt :: "int64 \<Rightarrow> string" where
  "FormatInt i = (if sint i < 0 then CHR ''-'' # formatBits (- sint i)
                  else formatBits (sint i))"

text \<open>\<open>strconv.ParseBool\<close>: the twelve accepted spellings.\<close>

definition ParseBool :: "string \<Rightarrow> bool \<times> error option" where
  "ParseBool str =
     (if str \<in> {''1'', ''t'', ''T'', ''TRUE'', ''true'', ''True''} then (True, None)
      else if str \<in> {''0'', ''f'', ''F'', ''FALSE'', ''false'', ''False''} then (False, None)
      else (False, Some (ErrSyntax str)))"

text \<open>\<open>strings.Trim(str, " ")\<close> and \<open>strings.Replace(str, old, "", -1)\<close> for a
  one-byte \<open>old\<close>.\<close>

definition Trim_space :: "string \<Rightarrow> string" where
  "Trim_space s = rev (dropWhile (\<lambda>c. c = CHR '' '') (rev (dropWhile (\<lambda>c. c = CHR '' '') s)))"

definition Replace_all_empty :: "char \<Rightarrow> string \<Rightarrow> string" where
  "Replace_all_empty old s = filter (\<lambda>c. c \<noteq> old) s"

section \<open>64-bit floating point values\<close>

text \<open>
  A \<open>float64\<close> is its IEEE 754 bit pattern: one sign bit, eleven exponent bits, fifty-two
  fraction bits.  \<open>math.IsNaN\<close>, \<open>math.IsInf(f, 0)\<close> and the comparison \<open>f != 0\<close> are
  read off the pattern (both zeros compare equal to 0).  The decimal conversions of
  \<open>strconv\<close> (\<open>ParseFloat(s, 64)\<close> and \<open>FormatFloat(f, 'f', -1, 64)\<close>) are parameters
  of the functions that call them.
\<close>

type_synonym float64 = "64 word"

definition IsNaN :: "float64 \<Rightarrow> bool" where
  "IsNaN f = (f AND 0x7FF0000000000000 = 0x7FF0000000000000 \<and> f AND 0x000FFFFFFFFFFFFF \<noteq> 0)"

definition IsInf :: "float64 \<Rightarrow> bool" where
  "IsInf f = (f AND 0x7FFFFFFFFFFFFFFF = 0x7FF0000000000000)"

definition float_ne_zero :: "float64 \<Rightarrow> bool" where
  "float_ne_zero f = (f AND 0x7FFFFFFFFFFFFFFF \<noteq> 0)"

section \<open>JSON values and the decoder of \<open>encoding/json\<close>\<close>

text \<open>
  The value \<open>json.Unmarshal(data, &v)\<close> stores in an empty interface: \<open>nil\<close>, a bool, a
  number, a string, a slice or a map.  A number keeps its literal: the decoder converts
  it with \<open>strconv.ParseFloat\<close>, and \<open>Int.UnmarshalJSON\<close> decodes the same bytes a second
  time as an integer.  An object keeps its members in the order of the input, which the
  decoding into a struct follows.
\<close>

datatype json =
    JNull
  | JBool bool
  | JNumber string
  | JString string
  | JArray "json list"
  | JObject "(string \<times> json) list"

definition isSpace :: "char \<Rightarrow> bool" where
  "isSpace c = (c = CHR '' '' \<or> c = CHR 0x09 \<or> c = CHR 0x0D \<or> c = CHR 0x0A)"

fun skip_ws :: "string \<Rightarrow> string" where
  "skip_ws [] = []"
| "skip_ws (c # cs) = (if isSpace c then skip_ws cs else c # cs)"

subsection \<open>Number literals\<close>

text \<open>The number grammar of the scanner: an optional minus sign, \<open>0\<close> or a digit from 1
  to 9 followed by digits, an optional fraction and an optional exponent.  The result is
  the literal and the input after it.\<close>

definition scan_exp :: "string \<Rightarrow> string \<Rightarrow> (string \<times> string) option" where
  "scan_exp lit s =
     (case s of
        [] \<Rightarrow> Some (lit, [])
      | c # r \<Rightarrow>
          if c = CHR ''e'' \<or> c = CHR ''E'' then
            (let sg = (if r \<noteq> [] \<and> (hd r = CHR ''+'' \<or> hd r = CHR ''-'') then [hd r] else []);
                 r1 = drop (length sg) r;
                 ds = takeWhile isDigit r1
             in if ds = [] then None
                else Some (lit @ [c] @ sg @ ds, dropWhile isDigit r1))
          else Some (lit, s))"

definition scan_frac :: "string \<Rightarrow> string \<Rightarrow> (string \<times> string) option" where
  "scan_frac lit s =
     (case s of
        [] \<Rightarrow> Some (lit, [])
      | c # r \<Rightarrow>
          if c = CHR ''.'' then
            (let ds = takeWhile isDigit r
             in if ds = [] then None
                else scan_exp (lit @ [c] @ ds) (dropWhile isDigit r))
          else scan_exp lit s)"

definition scan_number :: "string \<Rightarrow> (string \<times> string) option" where
  "scan_number s =
     (let sg = (if s \<noteq> [] \<and> hd s = CHR ''-'' then ''-'' else []);
          s1 = drop (length sg) s
      in case s1 of
           [] \<Rightarrow> None
         | c # r \<Rightarrow>
             if c = CHR ''0'' then scan_frac (sg @ [c]) r
             else if isDigit c then
               scan_frac (sg @ [c] @ takeWhile isDigit r) (dropWhile isDigit r)
             else None)"

subsection \<open>String literals\<close>

definition isHex :: "char \<Rightarrow> bool" where
  "isHex c = (isDigit c \<or> (97 \<le> (of_char c :: nat) \<and> (of_char c :: nat) \<le> 102)
                \<or> (65 \<le> (of_char c :: nat) \<and> (of_char c :: nat) \<le> 70))"

definition hexVal :: "char \<Rightarrow> int" where
  "hexVal c = (if isDigit c then of_char c - 48
               else if 97 \<le> (of_char c :: nat) then of_char c - 97 + 10
               else of_char c - 65 + 10)"

text \<open>The scanner's view of a string literal, after the opening quote: the bytes up to
  the closing quote, every escape checked, no control character; the result is the raw
  body and the input after the closing quote.\<close>

fun scan_string :: "string \<Rightarrow> (string \<times> string) option" where
  "scan_string [] = None"
| "scan_string (c # cs) =
     (if c = CHR 0x22 then Some ([], cs)
      else if c = CHR 0x5C then
        (case cs of
           [] \<Rightarrow> None
         | e # r \<Rightarrow>
             if e \<in> set ''bfnrt/'' \<or> e = CHR 0x5C \<or> e = CHR 0x22 then
               (case scan_string r of None \<Rightarrow> None
                | Some (body, rest) \<Rightarrow> Some (c # e # body, rest))
             else if e = CHR ''u'' \<and> length (take 4 r) = 4 \<and> list_all isHex (take 4 r) then
               (case scan_string r of None \<Rightarrow> None
                | Some (body, rest) \<Rightarrow> Some (c # e # body, rest))
             else None)
      else if (of_char c :: nat) < 0x20 then None
      else (case scan_string cs of None \<Rightarrow> None
            | Some (body, rest) \<Rightarrow> Some (c # body, rest)))"

text \<open>\<open>utf8.EncodeRune\<close>, and the length of the valid UTF-8 sequence at the head of a
  byte string (0 when \<open>utf8.DecodeRune\<close> reports an error there).\<close>

definition encodeRune :: "int \<Rightarrow> string" where
  "encodeRune r =
     (if 0 \<le> r \<and> r < 0x80 then [char_of r]
      else if 0 \<le> r \<and> r < 0x800 then [char_of (0xC0 + r div 64), char_of (0x80 + r mod 64)]
      else if r < 0 \<or> r > 0x10FFFF \<or> (0xD800 \<le> r \<and> r < 0xE000) then
        [CHR 0xEF, CHR 0xBF, CHR 0xBD]
      else if r < 0x10000 then
        [char_of (0xE0 + r div 4096), char_of (0x80 + (r div 64) mod 64), char_of (0x80 + r mod 64)]
      else [char_of (0xF0 + r div 262144), char_of (0x80 + (r div 4096) mod 64),
            char_of (0x80 + (r div 64) mod 64), char_of (0x80 + r mod 64)])"

definition isCont :: "char \<Rightarrow> bool" where
  "isCont c = (0x80 \<le> (of_char c :: nat) \<and> (of_char c :: nat) \<le> 0xBF)"

definition utf8_len :: "string \<Rightarrow> nat" where
  "utf8_len s =
     (case s of
        [] \<Rightarrow> 0
      | c # r \<Rightarrow>
         (let p0 = (of_char c :: nat);
              b1 = (if r = [] then 0 else (of_char (hd r) :: nat));
              sz = (if 0xC2 \<le> p0 \<and> p0 \<le> 0xDF then 2
                    else if 0xE0 \<le> p0 \<and> p0 \<le> 0xEF then 3
                    else if 0xF0 \<le> p0 \<and> p0 \<le> 0xF4 then 4 else 0);
              lo = (if p0 = 0xE0 then 0xA0 else if p0 = 0xF0 then 0x90 else 0x80);
              hi = (if p0 = 0xED then 0x9F else if p0 = 0xF4 then 0x8F else 0xBF)
          in if p0 < 0x80 then 1
             else if sz = 0 \<or> length s < sz then 0
             else if b1 < lo \<or> hi < b1 then 0
             else if list_all isCont (take (sz - 2) (drop 2 s)) then sz
             else 0))"

definition getu4 :: "string \<Rightarrow> int" where
  "getu4 s =
     (if length s < 6 \<or> s ! 0 \<noteq> CHR 0x5C \<or> s ! 1 \<noteq> CHR ''u''
         \<or> \<not> list_all isHex (take 4 (drop 2 s)) then - 1
      else hexVal (s ! 2) * 4096 + hexVal (s ! 3) * 256 + hexVal (s ! 4) * 16 + hexVal (s ! 5))"

definition unescape :: "char \<Rightarrow> char" where
  "unescape e =
     (if e = CHR ''b'' then CHR 0x08 else if e = CHR ''f'' then CHR 0x0C
      else if e = CHR ''n'' then CHR 0x0A else if e = CHR ''r'' then CHR 0x0D
      else if e = CHR ''t'' then CHR 0x09 else e)"

text \<open>\<open>unquote\<close> of the decoder, on the raw body of a literal the scanner accepted:
  escapes are replaced, a \<open>\u\<close> escape gives the UTF-8 bytes of its code point (a
  surrogate pair one code point, a lone surrogate U+FFFD), and a byte that does not
  start a valid UTF-8 sequence gives U+FFFD.\<close>

function unquote :: "string \<Rightarrow> string" where
  "unquote [] = []"
| "unquote (c # cs) =
     (if c = CHR 0x5C then
        (if cs = [] then []
         else if hd cs = CHR ''u'' then
           (let rr = getu4 (c # cs); r = drop 5 cs
            in if 0xD800 \<le> rr \<and> rr < 0xE000 then
                 (let rr1 = getu4 r
                  in if rr < 0xDC00 \<and> 0xDC00 \<le> rr1 \<and> rr1 < 0xE000
                     then encodeRune ((rr - 0xD800) * 1024 + (rr1 - 0xDC00) + 0x10000)
                            @ unquote (drop 6 r)
                     else encodeRune 0xFFFD @ unquote r)
               else encodeRune rr @ unquote r)
         else unescape (hd cs) # unquote (tl cs))
      else if (of_char c :: nat) < 0x80 then c # unquote cs
      else (let n = utf8_len (c # cs)
            in if n = 0 then encodeRune 0xFFFD @ unquote cs
               else take n (c # cs) @ unquote (drop (n - 1) cs)))"
  by pat_completeness auto
termination
  by (relation "measure length") (auto simp: less_Suc_eq_le intro: le_trans [OF length_drop [THEN eq_imp_le]] diff_le_self)

declare unquote.simps [simp del]

subsection \<open>Values\<close>

text \<open>
  The recursive descent over one value.  The first argument bounds the number of nested
  calls; \<open>json_parse\<close> starts with more than the input can use (every call but the
  first is preceded by a byte of the input that no other call accounts for, two calls
  at most sharing one byte).
\<close>

fun parse_value :: "nat \<Rightarrow> string \<Rightarrow> (json \<times> string) option"
  and parse_elems :: "nat \<Rightarrow> string \<Rightarrow> (json list \<times> string) option"
  and parse_members :: "nat \<Rightarrow> string \<Rightarrow> ((string \<times> json) list \<times> string) option" where
  "parse_value 0 s = None"
| "parse_value (Suc n) s =
     (case s of
        [] \<Rightarrow> None
      | c # cs \<Rightarrow>
          if c = CHR ''{'' then
            (case skip_ws cs of
               [] \<Rightarrow> None
             | d # r \<Rightarrow>
                 if d = CHR ''}'' then Some (JObject [], r)
                 else (case parse_members n (d # r) of None \<Rightarrow> None
                       | Some (kvs, rest) \<Rightarrow> Some (JObject kvs, rest)))
          else if c = CHR ''['' then
            (case skip_ws cs of
               [] \<Rightarrow> None
             | d # r \<Rightarrow>
                 if d = CHR '']'' then Some (JArray [], r)
                 else (case parse_elems n (d # r) of None \<Rightarrow> None
                       | Some (vs, rest) \<Rightarrow> Some (JArray vs, rest)))
          else if c = CHR 0x22 then
            (case scan_string cs of None \<Rightarrow> None
             | Some (body, rest) \<Rightarrow> Some (JString (unquote body), rest))
          else if c = CHR ''-'' \<or> isDigit c then
            (case scan_number s of None \<Rightarrow> None
             | Some (lit, rest) \<Rightarrow> Some (JNumber lit, rest))
          else if take 4 s = ''true'' then Some (JBool True, drop 4 s)
          else if take 5 s = ''false'' then Some (JBool False, drop 5 s)
          else if take 4 s = ''null'' then Some (JNull, drop 4 s)
          else None)"
| "parse_elems 0 s = None"
| "parse_elems (Suc n) s =
     (case parse_value n s of
        None \<Rightarrow> None
      | Some (v, rest) \<Rightarrow>
          (case skip_ws rest of
             [] \<Rightarrow> None
           | d # r \<Rightarrow>
               if d = CHR '','' then
                 (case parse_elems n (skip_ws r) of None \<Rightarrow> None
                  | Some (vs, rest') \<Rightarrow> Some (v # vs, rest'))
               else if d = CHR '']'' then Some ([v], r)
               else None))"
| "parse_members 0 s = None"
| "parse_members (Suc n) s =
     (case s of
        [] \<Rightarrow> None
      | q # cs \<Rightarrow>
          if q \<noteq> CHR 0x22 then None
          else
            (case scan_string cs of
               None \<Rightarrow> None
             | Some (body, rest) \<Rightarrow>
                 (case skip_ws rest of
                    [] \<Rightarrow> None
                  | d # r \<Rightarrow>
                      if d \<noteq> CHR '':'' then None
                      else
                        (case parse_value n (skip_ws r) of
                           None \<Rightarrow> None
                         | Some (v, rest1) \<Rightarrow>
                             (case skip_ws rest1 of
                                [] \<Rightarrow> None
                              | e # r1 \<Rightarrow>
                                  if e = CHR '','' then
                                    (case parse_members n (skip_ws r1) of None \<Rightarrow> None
                                     | Some (kvs, rest2) \<Rightarrow> Some ((unquote body, v) # kvs, rest2))
                                  else if e = CHR ''}'' then Some ([(unquote body, v)], r1)
                                  else None)))))"

text \<open>\<open>checkValid\<close> and the decoding of the whole input: white space, one value, white
  space.  \<open>None\<close> is the decoder's \<open>SyntaxError\<close>.\<close>

definition json_parse :: "string \<Rightarrow> json option" where
  "json_parse data =
     (case parse_value (2 * length data + 2) (skip_ws data) of
        None \<Rightarrow> None
      | Some (v, rest) \<Rightarrow> if skip_ws rest = [] then Some v else None)"

text \<open>The conversion of the numbers of a value to \<open>float64\<close>, by the \<open>ParseFloat\<close> given:
  the first literal it rejects is the decoder's error.\<close>

fun first_error :: "error option list \<Rightarrow> error option" where
  "first_error [] = None"
| "first_error (None # es) = first_error es"
| "first_error (Some e # es) = Some e"

fun convert_numbers :: "(string \<Rightarrow> float64 \<times> error option) \<Rightarrow> json \<Rightarrow> error option" where
  "convert_numbers PF JNull = None"
| "convert_numbers PF (JBool b) = None"
| "convert_numbers PF (JString s) = None"
| "convert_numbers PF (JNumber lit) =
     (if snd (PF lit) = None then None else Some (UnmarshalTypeError (''number '' @ lit)))"
| "convert_numbers PF (JArray vs) = first_error (map (convert_numbers PF) vs)"
| "convert_numbers PF (JObject kvs) = first_error (map (\<lambda>kv. convert_numbers PF (snd kv)) kvs)"

text \<open>\<open>json.Unmarshal(data, &v)\<close> for \<open>v\<close> of type \<open>interface{}\<close>.\<close>

definition json_Unmarshal :: "(string \<Rightarrow> float64 \<times> error option) \<Rightarrow> string \<Rightarrow> error + json" where
  "json_Unmarshal PF data =
     (case json_parse data of
        None \<Rightarrow> Inl SyntaxError
      | Some v \<Rightarrow> (case convert_numbers PF v of Some e \<Rightarrow> Inl e | None \<Rightarrow> Inr v))"

subsection \<open>Decoding into an integer, a float, a bool and a struct of two fields\<close>

text \<open>
  \<open>json.Unmarshal\<close> into a field of kind int64, float64 or bool, given the value the
  valid input holds and the field's current content: \<open>null\<close> leaves the field as it is,
  a value of the wrong kind (or a number that does not fit) is an
  \<open>UnmarshalTypeError\<close> and leaves the field as it is.
\<close>

fun store_int64 :: "json \<Rightarrow> int64 \<Rightarrow> error option \<times> int64" where
  "store_int64 JNull cur = (None, cur)"
| "store_int64 (JNumber lit) cur =
     (case ParseInt lit of
        (n, None) \<Rightarrow> (None, n)
      | (n, Some e) \<Rightarrow> (Some (UnmarshalTypeError (''number '' @ lit)), cur))"
| "store_int64 (JBool b) cur = (Some (UnmarshalTypeError ''bool''), cur)"
| "store_int64 (JString x) cur = (Some (UnmarshalTypeError ''string''), cur)"
| "store_int64 (JArray vs) cur = (Some (UnmarshalTypeError ''array''), cur)"
| "store_int64 (JObject kvs) cur = (Some (UnmarshalTypeError ''object''), cur)"

fun store_float64 :: "(string \<Rightarrow> float64 \<times> error option) \<Rightarrow> json \<Rightarrow> float64 \<Rightarrow> error option \<times> float64" where
  "store_float64 PF JNull cur = (None, cur)"
| "store_float64 PF (JNumber lit) cur =
     (case PF lit of
        (x, None) \<Rightarrow> (None, x)
      | (x, Some e) \<Rightarrow> (Some (UnmarshalTypeError (''number '' @ lit)), cur))"
| "store_float64 PF (JBool b) cur = (Some (UnmarshalTypeError ''bool''), cur)"
| "store_float64 PF (JString x) cur = (Some (UnmarshalTypeError ''string''), cur)"
| "store_float64 PF (JArray vs) cur = (Some (UnmarshalTypeError ''array''), cur)"
| "store_float64 PF (JObject kvs) cur = (Some (UnmarshalTypeError ''object''), cur)"

fun store_bool :: "json \<Rightarrow> bool \<Rightarrow> error option \<times> bool" where
  "store_bool JNull cur = (None, cur)"
| "store_bool (JBool b) cur = (None, b)"
| "store_bool (JNumber lit) cur = (Some (UnmarshalTypeError ''number''), cur)"
| "store_bool (JString x) cur = (Some (UnmarshalTypeError ''string''), cur)"
| "store_bool (JArray vs) cur = (Some (UnmarshalTypeError ''array''), cur)"
| "store_bool (JObject kvs) cur = (Some (UnmarshalTypeError ''object''), cur)"

text \<open>A key of the input names a field when it is the field's name up to the case of
  its ASCII letters.\<close>

definition toLower :: "char \<Rightarrow> char" where
  "toLower c = (if 65 \<le> (of_char c :: nat) \<and> (of_char c :: nat) \<le> 90
                then char_of ((of_char c :: nat) + 32) else c)"

definition equalFold :: "string \<Rightarrow> string \<Rightarrow> bool" where
  "equalFold a b = (map toLower a = map toLower b)"

text \<open>The first error met is the one returned; the decoding goes on after it.\<close>

definition keep_first :: "error option \<Rightarrow> error option \<Rightarrow> error option" where
  "keep_first saved e = (case saved of None \<Rightarrow> e | Some x \<Rightarrow> Some x)"

section \<open>Bool\<close>

text \<open>\<open>type Bool struct { sql.NullBool }\<close>, the embedded struct having the fields
  \<open>Bool\<close> and \<open>Valid\<close>.\<close>

record Bool =
  Bool_Bool :: bool
  Bool_Valid :: bool

definition NewBool :: "bool \<Rightarrow> Bool" where
  "NewBool b = \<lparr>Bool_Bool = b, Bool_Valid = True\<rparr>"

text \<open>\<open>Bool.UnmarshalText\<close>: the switch over the text, case by case.  The result is the
  returned error and the receiver after the call.\<close>

definition Bool_UnmarshalText :: "string \<Rightarrow> Bool \<Rightarrow> error option \<times> Bool" where
  "Bool_UnmarshalText str b =
     (if str = [] \<or> str = ''null'' then (None, b\<lparr>Bool_Bool := False, Bool_Valid := False\<rparr>)
      else if str = ''true'' then (None, b\<lparr>Bool_Valid := True, Bool_Bool := True\<rparr>)
      else if str = ''false'' then (None, b\<lparr>Bool_Bool := False, Bool_Valid := True\<rparr>)
      else if str = ''1'' then (None, b\<lparr>Bool_Valid := True, Bool_Bool := True\<rparr>)
      else if str = ''0'' then (None, b\<lparr>Bool_Bool := False, Bool_Valid := True\<rparr>)
      else (Some (InvalidInput (''invalid input:'' @ str)), b\<lparr>Bool_Valid := False\<rparr>))"

definition Bool_MarshalJSON :: "Bool \<Rightarrow> error + string" where
  "Bool_MarshalJSON b =
     (if \<not> Bool_Valid b then Inr ''null''
      else if \<not> Bool_Bool b then Inr ''false''
      else Inr ''true'')"


definition Bool_IsNil :: "Bool \<Rightarrow> bool" where
  "Bool_IsNil b = (\<not> Bool_Valid b)"

text \<open>The decoding of an object into the embedded \<open>sql.NullBool\<close>, member by member.\<close>

fun store_NullBool :: "(string \<times> json) list \<Rightarrow> error option \<Rightarrow> Bool \<Rightarrow> error option \<times> Bool" where
  "store_NullBool [] saved b = (saved, b)"
| "store_NullBool ((k, v) # kvs) saved b =
     (if equalFold k ''Bool'' then
        (let (e, x) = store_bool v (Bool_Bool b)
         in store_NullBool kvs (keep_first saved e) (b\<lparr>Bool_Bool := x\<rparr>))
      else if equalFold k ''Valid'' then
        (let (e, x) = store_bool v (Bool_Valid b)
         in store_NullBool kvs (keep_first saved e) (b\<lparr>Bool_Valid := x\<rparr>))
      else store_NullBool kvs saved b)"

text \<open>\<open>Bool.UnmarshalJSON\<close>.  The second \<open>json.Unmarshal\<close> of the object case decodes
  the bytes the first call accepted, so it works on the value the first call found.\<close>

definition Bool_UnmarshalJSON ::
    "(string \<Rightarrow> float64 \<times> error option) \<Rightarrow> string \<Rightarrow> Bool \<Rightarrow> error option \<times> Bool" where
  "Bool_UnmarshalJSON PF data b =
     (case json_Unmarshal PF data of
        Inl err \<Rightarrow> (Some err, b)
      | Inr v \<Rightarrow>
          (case v of
             JBool x \<Rightarrow> (None, b\<lparr>Bool_Bool := x, Bool_Valid := True\<rparr>)
           | JObject kvs \<Rightarrow>
               (let (err, b') = store_NullBool kvs None b
                in (err, b'\<lparr>Bool_Valid := (err = None)\<rparr>))
           | JNull \<Rightarrow> (None, b\<lparr>Bool_Valid := False\<rparr>)
           | JString x \<Rightarrow>
               if length x = 0 then (None, b\<lparr>Bool_Valid := False\<rparr>)
               else (let (y, err) = ParseBool x
                     in (err, b\<lparr>Bool_Bool := y, Bool_Valid := (err = None)\<rparr>))
           | JNumber lit \<Rightarrow> (Some (CannotUnmarshal ''float64''), b\<lparr>Bool_Valid := False\<rparr>)
           | JArray vs \<Rightarrow> (Some (CannotUnmarshal []), b\<lparr>Bool_Valid := False\<rparr>)))"

section \<open>Int\<close>

text \<open>\<open>type Int struct { sql.NullInt64 }\<close>, with the fields \<open>Int64\<close> and \<open>Valid\<close>.\<close>

record Int' =
  Int_Int64 :: int64
  Int_Valid :: bool

definition NewInt :: "int64 \<Rightarrow> Int'" where
  "NewInt i = \<lparr>Int_Int64 = i, Int_Valid = True\<rparr>"

fun store_NullInt64 :: "(string \<times> json) list \<Rightarrow> error option \<Rightarrow> Int' \<Rightarrow> error option \<times> Int'" where
  "store_NullInt64 [] saved i = (saved, i)"
| "store_NullInt64 ((k, v) # kvs) saved i =
     (if equalFold k ''Int64'' then
        (let (e, x) = store_int64 v (Int_Int64 i)
         in store_NullInt64 kvs (keep_first saved e) (i\<lparr>Int_Int64 := x\<rparr>))
      else if equalFold k ''Valid'' then
        (let (e, x) = store_bool v (Int_Valid i)
         in store_NullInt64 kvs (keep_first saved e) (i\<lparr>Int_Valid := x\<rparr>))
      else store_NullInt64 kvs saved i)"

text \<open>\<open>Int.UnmarshalJSON\<close>.  In the number case the source decodes \<open>data\<close> again,
  into \<open>i.Int64\<close>; in the object case into \<open>i.NullInt64\<close>.\<close>

definition Int_UnmarshalJSON ::
    "(string \<Rightarrow> float64 \<times> error option) \<Rightarrow> string \<Rightarrow> Int' \<Rightarrow> error option \<times> Int'" where
  "Int_UnmarshalJSON PF data i =
     (case json_Unmarshal PF data of
        Inl err \<Rightarrow> (Some err, i)
      | Inr v \<Rightarrow>
          (case v of
             JNumber lit \<Rightarrow>
               (let (err, n) = store_int64 v (Int_Int64 i)
                in (err, i\<lparr>Int_Int64 := n, Int_Valid := (err = None)\<rparr>))
           | JString x \<Rightarrow>
               if length x = 0 then (None, i\<lparr>Int_Valid := False\<rparr>)
               else (let (n, err) = ParseInt x
                     in (err, i\<lparr>Int_Int64 := n, Int_Valid := (err = None)\<rparr>))
           | JObject kvs \<Rightarrow>
               (let (err, i') = store_NullInt64 kvs None i
                in (err, i'\<lparr>Int_Valid := (err = None)\<rparr>))
           | JNull \<Rightarrow> (None, i\<lparr>Int_Valid := False\<rparr>)
           | JBool x \<Rightarrow> (Some (CannotUnmarshal ''bool''), i\<lparr>Int_Valid := False\<rparr>)
           | JArray vs \<Rightarrow> (Some (CannotUnmarshal []), i\<lparr>Int_Valid := False\<rparr>)))"

definition Int_UnmarshalText :: "string \<Rightarrow> Int' \<Rightarrow> error option \<times> Int'" where
  "Int_UnmarshalText str i =
     (if str = [] \<or> str = ''null'' then (None, i\<lparr>Int_Valid := False\<rparr>)
      else (let (n, err) = ParseInt str
            in (err, i\<lparr>Int_Int64 := n, Int_Valid := (err = None \<and> n \<noteq> 0)\<rparr>)))"

definition Int_MarshalJSON :: "Int' \<Rightarrow> error + string" where
  "Int_MarshalJSON i =
     (if \<not> Int_Valid i then Inr ''null'' else Inr (FormatInt (Int_Int64 i)))"


definition Int_IsNil :: "Int' \<Rightarrow> bool" where
  "Int_IsNil i = (\<not> Int_Valid i)"

section \<open>Float\<close>

text \<open>\<open>type Float struct { sql.NullFloat64 }\<close>, with the fields \<open>Float64\<close> and \<open>Valid\<close>.
  \<open>PF\<close> stands for \<open>strconv.ParseFloat(\<cdot>, 64)\<close> and \<open>FF\<close> for
  \<open>strconv.FormatFloat(\<cdot>, 'f', -1, 64)\<close>.\<close>

record Float =
  Float_Float64 :: float64
  Float_Valid :: bool

definition NewFloat :: "float64 \<Rightarrow> Float" where
  "NewFloat f = \<lparr>Float_Float64 = f, Float_Valid = True\<rparr>"

fun store_NullFloat64 ::
    "(string \<Rightarrow> float64 \<times> error option) \<Rightarrow> (string \<times> json) list \<Rightarrow> error option \<Rightarrow> Float
      \<Rightarrow> error option \<times> Float" where
  "store_NullFloat64 PF [] saved f = (saved, f)"
| "store_NullFloat64 PF ((k, v) # kvs) saved f =
     (if equalFold k ''Float64'' then
        (let (e, x) = store_float64 PF v (Float_Float64 f)
         in store_NullFloat64 PF kvs (keep_first saved e) (f\<lparr>Float_Float64 := x\<rparr>))
      else if equalFold k ''Valid'' then
        (let (e, x) = store_bool v (Float_Valid f)
         in store_NullFloat64 PF kvs (keep_first saved e) (f\<lparr>Float_Valid := x\<rparr>))
      else store_NullFloat64 PF kvs saved f)"

definition Float_UnmarshalJSON ::
    "(string \<Rightarrow> float64 \<times> error option) \<Rightarrow> string \<Rightarrow> Float \<Rightarrow> error option \<times> Float" where
  "Float_UnmarshalJSON PF data f =
     (case json_Unmarshal PF data of
        Inl err \<Rightarrow> (Some err, f)
      | Inr v \<Rightarrow>
          (case v of
             JNumber lit \<Rightarrow> (None, f\<lparr>Float_Float64 := fst (PF lit), Float_Valid := True\<rparr>)
           | JString str \<Rightarrow>
               if length str = 0 then (None, f\<lparr>Float_Valid := False\<rparr>)
               else (let (x, err) = PF str
                     in (err, f\<lparr>Float_Float64 := x, Float_Valid := (err = None)\<rparr>))
           | JObject kvs \<Rightarrow>
               (let (err, f') = store_NullFloat64 PF kvs None f
                in (err, f'\<lparr>Float_Valid := (err = None)\<rparr>))
           | JNull \<Rightarrow> (None, f\<lparr>Float_Valid := False\<rparr>)
           | JBool x \<Rightarrow> (Some (CannotUnmarshal ''bool''), f\<lparr>Float_Valid := False\<rparr>)
           | JArray vs \<Rightarrow> (Some (CannotUnmarshal []), f\<lparr>Float_Valid := False\<rparr>)))"

definition Float_UnmarshalText ::
    "(string \<Rightarrow> float64 \<times> error option) \<Rightarrow> string \<Rightarrow> Float \<Rightarrow> error option \<times> Float" where
  "Float_UnmarshalText PF str f =
     (if str = [] \<or> str = ''null'' then (None, f\<lparr>Float_Valid := False\<rparr>)
      else (let (x, err) = PF str
            in (err, f\<lparr>Float_Float64 := x, Float_Valid := (err = None \<and> float_ne_zero x)\<rparr>)))"

definition Float_MarshalJSON :: "(float64 \<Rightarrow> string) \<Rightarrow> Float \<Rightarrow> error + string" where
  "Float_MarshalJSON FF f =
     (if \<not> Float_Valid f then Inr ''null''
      else if IsInf (Float_Float64 f) \<or> IsNaN (Float_Float64 f) then Inl UnsupportedValueError
      else Inr (FF (Float_Float64 f)))"


text \<open>\<open>Value\<close> of the embedded \<open>sql.NullFloat64\<close>, which \<open>Float\<close> promotes: the driver
  value is \<open>nil\<close> for an invalid receiver and the float itself otherwise.\<close>

datatype driver_Value = DNil | DFloat64 float64

definition Float_Value :: "Float \<Rightarrow> error + driver_Value" where
  "Float_Value f = (if \<not> Float_Valid f then Inr DNil else Inr (DFloat64 (Float_Float64 f)))"

definition Float_IsNil :: "Float \<Rightarrow> bool" where
  "Float_IsNil f = (\<not> Float_Valid f)"

section \<open>String\<close>

text \<open>\<open>json.Marshal\<close> of a Go string: the bytes between quotes, with the escapes of the
  encoder (HTML escaping on): the quote and the backslash, the control characters,
  \<open><\<close>, \<open>>\<close> and \<open>&\<close>, U+2028 and U+2029, and U+FFFD for a byte that is not
  valid UTF-8.\<close>

definition hexDigit :: "nat \<Rightarrow> char" where
  "hexDigit n = ''0123456789abcdef'' ! n"

definition htmlSafe :: "char \<Rightarrow> bool" where
  "htmlSafe c = (0x20 \<le> (of_char c :: nat) \<and> (of_char c :: nat) < 0x80
                 \<and> c \<notin> {CHR 0x22, CHR ''&'', CHR ''<'', CHR ''>'', CHR 0x5C})"

function json_escape :: "string \<Rightarrow> string" where
  "json_escape [] = []"
| "json_escape (c # cs) =
     (if (of_char c :: nat) < 0x80 then
        (if htmlSafe c then c # json_escape cs
         else if c = CHR 0x5C \<or> c = CHR 0x22 then CHR 0x5C # c # json_escape cs
         else if c = CHR 0x08 then CHR 0x5C # CHR ''b'' # json_escape cs
         else if c = CHR 0x0C then CHR 0x5C # CHR ''f'' # json_escape cs
         else if c = CHR 0x0A then CHR 0x5C # CHR ''n'' # json_escape cs
         else if c = CHR 0x0D then CHR 0x5C # CHR ''r'' # json_escape cs
         else if c = CHR 0x09 then CHR 0x5C # CHR ''t'' # json_escape cs
         else [CHR 0x5C, CHR ''u'', CHR ''0'', CHR ''0'',
               hexDigit ((of_char c :: nat) div 16), hexDigit ((of_char c :: nat) mod 16)]
              @ json_escape cs)
      else
        (let n = utf8_len (c # cs)
         in if n = 0 then CHR 0x5C # ''ufffd'' @ json_escape cs
            else if take 3 (c # cs) = [CHR 0xE2, CHR 0x80, CHR 0xA8]
              then CHR 0x5C # ''u2028'' @ json_escape (drop 2 cs)
            else if take 3 (c # cs) = [CHR 0xE2, CHR 0x80, CHR 0xA9]
              then CHR 0x5C # ''u2029'' @ json_escape (drop 2 cs)
            else take n (c # cs) @ json_escape (drop (n - 1) cs)))"
  by pat_completeness auto
termination
  by (relation "measure length") (auto simp: less_Suc_eq_le)

declare json_escape.simps [simp del]

definition json_Marshal_string :: "string \<Rightarrow> string" where
  "json_Marshal_string s = CHR 0x22 # json_escape s @ [CHR 0x22]"

text \<open>\<open>type String struct { s sql.NullString }\<close>.\<close>

record String' =
  String_String :: string
  String_Valid :: bool

definition TrimFormatStr :: "string \<Rightarrow> string" where
  "TrimFormatStr str =
     Replace_all_empty (CHR 0x0D) (Replace_all_empty (CHR 0x0A) (Trim_space str))"

definition NewString :: "string \<Rightarrow> String'" where
  "NewString str =
     (if str = [] then \<lparr>String_String = [], String_Valid = False\<rparr>
      else \<lparr>String_String = TrimFormatStr str, String_Valid = True\<rparr>)"

definition String_Reset :: "String' \<Rightarrow> String'" where
  "String_Reset s = s\<lparr>String_String := [], String_Valid := False\<rparr>"

definition String_Set :: "string \<Rightarrow> String' \<Rightarrow> String'" where
  "String_Set v s = s\<lparr>String_Valid := True, String_String := v\<rparr>"

definition String_MarshalJSON :: "String' \<Rightarrow> error + string" where
  "String_MarshalJSON s =
     (if \<not> String_Valid s then Inr ''null''
      else Inr (json_Marshal_string (String_String s)))"

text \<open>\<open>String.UnmarshalJSON\<close> decodes into a \<open>*string\<close>: \<open>null\<close> gives the nil pointer,
  a string a pointer to it, any other value an \<open>UnmarshalTypeError\<close>.\<close>

definition String_UnmarshalJSON :: "string \<Rightarrow> String' \<Rightarrow> error option \<times> String'" where
  "String_UnmarshalJSON data s =
     (case json_parse data of
        None \<Rightarrow> (Some SyntaxError, s)
      | Some v \<Rightarrow>
          (case v of
             JNull \<Rightarrow> (None, s\<lparr>String_Valid := False, String_String := []\<rparr>)
           | JString x \<Rightarrow> (None, s\<lparr>String_Valid := True, String_String := TrimFormatStr x\<rparr>)
           | JNumber lit \<Rightarrow> (Some (UnmarshalTypeError ''number''), s)
           | JBool b \<Rightarrow> (Some (UnmarshalTypeError ''bool''), s)
           | JArray vs \<Rightarrow> (Some (UnmarshalTypeError ''array''), s)
           | JObject kvs \<Rightarrow> (Some (UnmarshalTypeError ''object''), s)))"

definition String_IsNil :: "String' \<Rightarrow> bool" where
  "String_IsNil s = (\<not> String_Valid s \<or> String_String s = [])"

section \<open>Values of \<open>time.Time\<close>, their formatting and parsing\<close>

text \<open>
  A \<open>time.Time\<close> is represented by what its methods \<open>Year\<close>, \<open>Month\<close>, \<open>Day\<close>,
  \<open>Hour\<close>, \<open>Minute\<close>, \<open>Second\<close>, \<open>Nanosecond\<close> and \<open>Location\<close> return: its calendar
  reading in its own location.  The locations are UTC and the process-local zone
  \<open>time.Local\<close>; where the offset of the local zone matters (the zero test and the
  RFC 3339 text) it is a parameter, in seconds east of UTC.
\<close>

datatype Location = UTC | Local

record time_Time =
  Year :: int
  Month :: int
  Day :: int
  Hour :: int
  Minute :: int
  Second :: int
  Nanosecond :: int
  Loc :: Location

text \<open>The zero value \<open>time.Time{}\<close>: January 1 of year 1, 00:00:00 UTC.\<close>

definition zero_Time :: time_Time where
  "zero_Time = \<lparr>Year = 1, Month = 1, Day = 1, Hour = 0, Minute = 0, Second = 0,
                 Nanosecond = 0, Loc = UTC\<rparr>"

definition isLeap :: "int \<Rightarrow> bool" where
  "isLeap y = (y mod 4 = 0 \<and> (y mod 100 \<noteq> 0 \<or> y mod 400 = 0))"

definition daysBefore :: "int \<Rightarrow> int" where
  "daysBefore m = [0, 31, 59, 90, 120, 151, 181, 212, 243, 273, 304, 334, 365] ! nat m"

definition daysIn :: "int \<Rightarrow> int \<Rightarrow> int" where
  "daysIn m y = (if m = 2 \<and> isLeap y then 29 else daysBefore m - daysBefore (m - 1))"

text \<open>The seconds from the zero instant to a calendar reading taken as UTC, and
  \<open>Time.IsZero\<close>: the instant is the zero instant.\<close>

definition abs_seconds :: "time_Time \<Rightarrow> int" where
  "abs_seconds t =
     (let y = Year t - 1;
          d = 365 * y + y div 4 - y div 100 + y div 400 + daysBefore (Month t - 1)
              + (if Month t > 2 \<and> isLeap (Year t) then 1 else 0) + (Day t - 1)
      in d * 86400 + Hour t * 3600 + Minute t * 60 + Second t)"

definition offset_of :: "int \<Rightarrow> time_Time \<Rightarrow> int" where
  "offset_of local_offset t = (if Loc t = UTC then 0 else local_offset)"

definition IsZero :: "int \<Rightarrow> time_Time \<Rightarrow> bool" where
  "IsZero local_offset t =
     (abs_seconds t - offset_of local_offset t = 0 \<and> Nanosecond t = 0)"

subsection \<open>Layouts\<close>

text \<open>
  The elements of a layout that the two layouts of the package use; \<open>layout_chunks\<close>
  cuts a layout into the pairs (literal prefix, element) that the loops of \<open>Format\<close>
  and \<open>Parse\<close> get from \<open>nextStdChunk\<close>, the last pair having no element.  Every other
  byte of a layout is taken as literal text.
\<close>

datatype std = stdLongYear | stdZeroMonth | stdZeroDay | stdHour | stdZeroMinute | stdZeroSecond

fun layout_chunks :: "string \<Rightarrow> string \<Rightarrow> (string \<times> std option) list" where
  "layout_chunks p [] = [(rev p, None)]"
| "layout_chunks p (c # cs) =
     (if take 4 (c # cs) = ''2006'' then (rev p, Some stdLongYear) # layout_chunks [] (drop 3 cs)
      else if take 2 (c # cs) = ''01'' then (rev p, Some stdZeroMonth) # layout_chunks [] (drop 1 cs)
      else if take 2 (c # cs) = ''02'' then (rev p, Some stdZeroDay) # layout_chunks [] (drop 1 cs)
      else if take 2 (c # cs) = ''15'' then (rev p, Some stdHour) # layout_chunks [] (drop 1 cs)
      else if take 2 (c # cs) = ''04'' then (rev p, Some stdZeroMinute) # layout_chunks [] (drop 1 cs)
      else if take 2 (c # cs) = ''05'' then (rev p, Some stdZeroSecond) # layout_chunks [] (drop 1 cs)
      else layout_chunks (c # p) cs)"

subsection \<open>Format\<close>

text \<open>\<open>appendInt\<close>: the decimal digits, padded with zeros to the width, after a minus
  sign for a negative number.\<close>

definition appendInt :: "int \<Rightarrow> nat \<Rightarrow> string" where
  "appendInt x width =
     (let ds = formatBits \<bar>x\<bar>
      in (if x < 0 then ''-'' else []) @ replicate (width - length ds) (CHR ''0'') @ ds)"

definition format_std :: "time_Time \<Rightarrow> std \<Rightarrow> string" where
  "format_std t s =
     (case s of
        stdLongYear \<Rightarrow> appendInt (Year t) 4
      | stdZeroMonth \<Rightarrow> appendInt (Month t) 2
      | stdZeroDay \<Rightarrow> appendInt (Day t) 2
      | stdHour \<Rightarrow> appendInt (Hour t) 2
      | stdZeroMinute \<Rightarrow> appendInt (Minute t) 2
      | stdZeroSecond \<Rightarrow> appendInt (Second t) 2)"

fun format_chunks :: "time_Time \<Rightarrow> (string \<times> std option) list \<Rightarrow> string" where
  "format_chunks t [] = []"
| "format_chunks t ((p, None) # rest) = p"
| "format_chunks t ((p, Some s) # rest) = p @ format_std t s @ format_chunks t rest"

definition Format :: "time_Time \<Rightarrow> string \<Rightarrow> string" where
  "Format t layout = format_chunks t (layout_chunks [] layout)"

subsection \<open>Parse\<close>

definition isDigitAt :: "string \<Rightarrow> nat \<Rightarrow> bool" where
  "isDigitAt s i = (i < length s \<and> isDigit (s ! i))"

definition getnum :: "string \<Rightarrow> bool \<Rightarrow> (int \<times> string) option" where
  "getnum s fixed =
     (if \<not> isDigitAt s 0 then None
      else if \<not> isDigitAt s 1 then
        (if fixed then None else Some (digitVal (s ! 0), drop 1 s))
      else Some (digitVal (s ! 0) * 10 + digitVal (s ! 1), drop 2 s))"

definition atoi_digits :: "string \<Rightarrow> int" where
  "atoi_digits ds = foldl (\<lambda>n c. n * 10 + digitVal c) 0 ds"

text \<open>\<open>skip\<close>: the literal text of the layout must lead the value, a run of spaces of
  the layout standing for any run of spaces of the value (or for its end).\<close>

function skip :: "string \<Rightarrow> string \<Rightarrow> string option" where
  "skip v [] = Some v"
| "skip v (p # ps) =
     (if p = CHR '' '' then
        (if v \<noteq> [] \<and> hd v \<noteq> CHR '' '' then None
         else skip (dropWhile (\<lambda>c. c = CHR '' '') v) (dropWhile (\<lambda>c. c = CHR '' '') ps))
      else if v = [] \<or> hd v \<noteq> p then None
      else skip (tl v) ps)"
  by pat_completeness auto
termination
  by (relation "measure (\<lambda>(v, p). length p)") (auto simp: less_Suc_eq_le length_dropWhile_le)

text \<open>One element of the layout read from the value: the time with the field set and
  the rest of the value, or the parse error.  After the seconds a fraction is accepted
  although the layout has none.\<close>

definition parse_std :: "std \<Rightarrow> string \<Rightarrow> time_Time \<Rightarrow> error + (time_Time \<times> string)" where
  "parse_std s v t =
     (case s of
        stdLongYear \<Rightarrow>
          if length v < 4 \<or> \<not> isDigitAt v 0 \<or> \<not> list_all isDigit (take 4 v)
          then Inl (ParseError [])
          else Inr (t\<lparr>Year := atoi_digits (take 4 v)\<rparr>, drop 4 v)
      | stdZeroMonth \<Rightarrow>
          (case getnum v True of
             None \<Rightarrow> Inl (ParseError [])
           | Some (n, r) \<Rightarrow>
               if n \<le> 0 \<or> 12 < n then Inl (ParseError '': month out of range'')
               else Inr (t\<lparr>Month := n\<rparr>, r))
      | stdZeroDay \<Rightarrow>
          (case getnum v True of
             None \<Rightarrow> Inl (ParseError [])
           | Some (n, r) \<Rightarrow> Inr (t\<lparr>Day := n\<rparr>, r))
      | stdHour \<Rightarrow>
          (case getnum v False of
             None \<Rightarrow> Inl (ParseError [])
           | Some (n, r) \<Rightarrow>
               if n < 0 \<or> 24 \<le> n then Inl (ParseError '': hour out of range'')
               else Inr (t\<lparr>Hour := n\<rparr>, r))
      | stdZeroMinute \<Rightarrow>
          (case getnum v True of
             None \<Rightarrow> Inl (ParseError [])
           | Some (n, r) \<Rightarrow>
               if n < 0 \<or> 60 \<le> n then Inl (ParseError '': minute out of range'')
               else Inr (t\<lparr>Minute := n\<rparr>, r))
      | stdZeroSecond \<Rightarrow>
          (case getnum v True of
             None \<Rightarrow> Inl (ParseError [])
           | Some (n, r) \<Rightarrow>
               if n < 0 \<or> 60 \<le> n then Inl (ParseError '': second out of range'')
               else if length r \<ge> 2 \<and> (r ! 0 = CHR ''.'' \<or> r ! 0 = CHR '','') \<and> isDigitAt r 1 then
                 (let ds = takeWhile isDigit (tl r);
                      ds9 = take 9 ds
                  in Inr (t\<lparr>Second := n,
                            Nanosecond := atoi_digits ds9 * 10 ^ (9 - length ds9)\<rparr>,
                          drop (1 + length ds) r))
               else Inr (t\<lparr>Second := n\<rparr>, r)))"

fun parse_chunks :: "(string \<times> std option) list \<Rightarrow> string \<Rightarrow> time_Time \<Rightarrow> error + time_Time" where
  "parse_chunks [] v t = Inr t"
| "parse_chunks ((p, el) # rest) v t =
     (case skip v p of
        None \<Rightarrow> Inl (ParseError [])
      | Some v1 \<Rightarrow>
          (case el of
             None \<Rightarrow> if v1 \<noteq> [] then Inl (ParseError ('': extra text: '' @ v1)) else Inr t
           | Some s \<Rightarrow>
               (case parse_std s v1 t of
                  Inl e \<Rightarrow> Inl e
                | Inr (t1, v2) \<Rightarrow> parse_chunks rest v2 t1)))"

text \<open>\<open>time.ParseInLocation(layout, value, loc)\<close>: the fields start at year 0, no
  month, no day, midnight; a month or a day the layout does not set is 1; the day must
  exist in the month; the result is the reading in \<open>loc\<close>.\<close>

definition ParseInLocation :: "string \<Rightarrow> string \<Rightarrow> Location \<Rightarrow> error + time_Time" where
  "ParseInLocation layout v loc =
     (case parse_chunks (layout_chunks [] layout) v
             \<lparr>Year = 0, Month = - 1, Day = - 1, Hour = 0, Minute = 0, Second = 0,
              Nanosecond = 0, Loc = loc\<rparr> of
        Inl e \<Rightarrow> Inl e
      | Inr t \<Rightarrow>
          (let m = (if Month t < 0 then 1 else Month t);
               d = (if Day t < 0 then 1 else Day t)
           in if d < 1 \<or> d > daysIn m (Year t) then Inl (ParseError '': day out of range'')
              else Inr (t\<lparr>Month := m, Day := d\<rparr>)))"

subsection \<open>The RFC 3339 text of a time\<close>




section \<open>Time\<close>

text \<open>The package variable \<open>TimeLayOut\<close>, at the value the package gives it.\<close>

definition TimeLayOut :: string where
  "TimeLayOut = ''2006-01-02 15:04:05''"

record Time =
  Time_Time :: time_Time
  Time_Valid :: bool

definition NewTime :: "time_Time \<Rightarrow> Time" where
  "NewTime t = \<lparr>Time_Time = t, Time_Valid = True\<rparr>"

definition Time_MarshalJSON :: "Time \<Rightarrow> error + string" where
  "Time_MarshalJSON t =
     (if \<not> Time_Valid t then Inr ''null''
      else Inr (json_Marshal_string (Format (Time_Time t) TimeLayOut)))"

definition Time_UnmarshalText :: "string \<Rightarrow> Time \<Rightarrow> error option \<times> Time" where
  "Time_UnmarshalText str t =
     (if str = [] \<or> str = ''null'' then (None, t\<lparr>Time_Valid := False\<rparr>)
      else (case ParseInLocation TimeLayOut str Local of
              Inl err \<Rightarrow> (Some err, t)
            | Inr tt \<Rightarrow> (None, t\<lparr>Time_Time := tt, Time_Valid := True\<rparr>)))"

definition Time_UnmarshalJSON ::
    "(string \<Rightarrow> float64 \<times> error option) \<Rightarrow> string \<Rightarrow> Time \<Rightarrow> error option \<times> Time" where
  "Time_UnmarshalJSON PF data t =
     (case json_Unmarshal PF data of
        Inl err \<Rightarrow> (Some err, t)
      | Inr v \<Rightarrow>
          (case v of
             JString x \<Rightarrow> Time_UnmarshalText x t
           | JNull \<Rightarrow> (None, t\<lparr>Time_Time := zero_Time, Time_Valid := False\<rparr>)
           | JNumber lit \<Rightarrow> (Some UnsupportedSerialization, t)
           | JBool b \<Rightarrow> (Some UnsupportedSerialization, t)
           | JArray vs \<Rightarrow> (Some UnsupportedSerialization, t)
           | JObject kvs \<Rightarrow> (Some UnsupportedSerialization, t)))"


definition Time_IsNil :: "int \<Rightarrow> Time \<Rightarrow> bool" where
  "Time_IsNil local_offset t = (\<not> Time_Valid t \<or> IsZero local_offset (Time_Time t))"

section \<open>Date\<close>

definition DateTimeLayOut :: string where
  "DateTimeLayOut = ''2006-01-02''"

record Date =
  Date_Time :: time_Time
  Date_Valid :: bool

text \<open>\<open>NewDate\<close> returns a \<open>Time\<close>, as the source has it.\<close>

definition NewDate :: "time_Time \<Rightarrow> Time" where
  "NewDate t = \<lparr>Time_Time = t, Time_Valid = True\<rparr>"

definition Date_SetValid :: "time_Time \<Rightarrow> Date \<Rightarrow> Date" where
  "Date_SetValid v t = t\<lparr>Date_Time := v, Date_Valid := True\<rparr>"

definition Date_MarshalJSON :: "Date \<Rightarrow> error + string" where
  "Date_MarshalJSON t =
     (if \<not> Date_Valid t then Inr ''null''
      else Inr (json_Marshal_string (Format (Date_Time t) DateTimeLayOut)))"

definition Date_UnmarshalText :: "string \<Rightarrow> Date \<Rightarrow> error option \<times> Date" where
  "Date_UnmarshalText text t =
     (if text = [] \<or> text = ''null'' then (None, t\<lparr>Date_Valid := False\<rparr>)
      else (let str = text @ '' 00:00:00''
            in case ParseInLocation TimeLayOut str Local of
                 Inl err \<Rightarrow> (Some err, t)
               | Inr tt \<Rightarrow> (None, t\<lparr>Date_Time := tt, Date_Valid := True\<rparr>)))"

definition Date_UnmarshalJSON ::
    "(string \<Rightarrow> float64 \<times> error option) \<Rightarrow> string \<Rightarrow> Date \<Rightarrow> error option \<times> Date" where
  "Date_UnmarshalJSON PF data t =
     (case json_Unmarshal PF data of
        Inl err \<Rightarrow> (Some err, t)
      | Inr v \<Rightarrow>
          (case v of
             JString x \<Rightarrow> Date_UnmarshalText x t
           | JNull \<Rightarrow> (None, t\<lparr>Date_Time := zero_Time, Date_Valid := False\<rparr>)
           | JNumber lit \<Rightarrow> (Some UnsupportedSerialization, t)
           | JBool b \<Rightarrow> (Some UnsupportedSerialization, t)
           | JArray vs \<Rightarrow> (Some UnsupportedSerialization, t)
           | JObject kvs \<Rightarrow> (Some UnsupportedSerialization, t)))"


definition Date_IsNil :: "int \<Rightarrow> Date \<Rightarrow> bool" where
  "Date_IsNil local_offset t = (\<not> Date_Valid t \<or> IsZero local_offset (Date_Time t))"

section \<open>The values the codecs write down in full\<close>

text \<open>
  The layout of \<open>Time\<close> writes the year in four digits and the date and the time of
  day to the second, and nothing else; a time is read back in the local zone.  The
  times this describes completely are the calendar readings in the local zone, of a
  year from 0 to 9999, on the second.
\<close>

definition layout_exact :: "time_Time \<Rightarrow> bool" where
  "layout_exact t =
     (0 \<le> Year t \<and> Year t \<le> 9999 \<and> 1 \<le> Month t \<and> Month t \<le> 12
      \<and> 1 \<le> Day t \<and> Day t \<le> daysIn (Month t) (Year t)
      \<and> 0 \<le> Hour t \<and> Hour t < 24 \<and> 0 \<le> Minute t \<and> Minute t < 60
      \<and> 0 \<le> Second t \<and> Second t < 60 \<and> Nanosecond t = 0 \<and> Loc t = Local)"

section \<open>Stand-ins for the float conversions in the examples\<close>

text \<open>
  The examples below need a \<open>ParseFloat\<close> and a \<open>FormatFloat\<close> to run the decoders on.
  These two agree with \<open>strconv\<close> on the literals 0, 5 and 1.5 (\<open>0x4014000000000000\<close>
  is 5 and \<open>0x3FF8000000000000\<close> is 1.5) and on the digits of the date and time
  examples, which the decoder never converts; every other input is a syntax error.
\<close>

definition ParseFloat_ex :: "string \<Rightarrow> float64 \<times> error option" where
  "ParseFloat_ex s =
     (if s = ''0'' then (0, None)
      else if s = ''5'' then (0x4014000000000000, None)
      else if s = ''1.5'' then (0x3FF8000000000000, None)
      else (0, Some (ErrSyntax s)))"

definition FormatFloat_ex :: "float64 \<Rightarrow> string" where
  "FormatFloat_ex x =
     (if x = 0 then ''0''
      else if x = 0x4014000000000000 then ''5''
      else if x = 0x3FF8000000000000 then ''1.5''
      else ''+Inf'')"

section \<open>The text grammar of Bool\<close>

text \<open>
  Claim C8.  For the optional boolean, decoding a text succeeds with the instance
  present exactly for the four inputs "true", "false", "1" and "0", the value being true
  for "true" and "1" and false for "false" and "0" (a false value is not turned into an
  absent one); the inputs "" and "null" give an absent instance and no error; every
  other input gives an error.
\<close>

theorem Bool_UnmarshalText_grammar:
  "(fst (Bool_UnmarshalText s b) = None \<and> Bool_Valid (snd (Bool_UnmarshalText s b))
      \<longleftrightarrow> s \<in> {''true'', ''false'', ''1'', ''0''})
   \<and> (s \<in> {''true'', ''1''} \<longrightarrow> Bool_UnmarshalText s b = (None, \<lparr>Bool_Bool = True, Bool_Valid = True\<rparr>))
   \<and> (s \<in> {''false'', ''0''} \<longrightarrow> Bool_UnmarshalText s b = (None, \<lparr>Bool_Bool = False, Bool_Valid = True\<rparr>))
   \<and> (s \<in> {'''', ''null''} \<longrightarrow> Bool_UnmarshalText s b = (None, \<lparr>Bool_Bool = False, Bool_Valid = False\<rparr>))
   \<and> (s \<notin> {''true'', ''false'', ''1'', ''0'', '''', ''null''} \<longrightarrow>
        fst (Bool_UnmarshalText s b) = Some (InvalidInput (''invalid input:'' @ s))
        \<and> \<not> Bool_Valid (snd (Bool_UnmarshalText s b)))"
  by (cases b) (simp add: Bool_UnmarshalText_def)

theorem Bool_UnmarshalText_grammar_witness:
  "Bool_UnmarshalText ''0'' (NewBool True) = (None, \<lparr>Bool_Bool = False, Bool_Valid = True\<rparr>)
   \<and> Bool_UnmarshalText ''1'' (NewBool False) = (None, \<lparr>Bool_Bool = True, Bool_Valid = True\<rparr>)
   \<and> Bool_UnmarshalText ''null'' (NewBool True) = (None, \<lparr>Bool_Bool = False, Bool_Valid = False\<rparr>)
   \<and> fst (Bool_UnmarshalText ''yes'' (NewBool True)) = Some (InvalidInput ''invalid input:yes'')
   \<and> \<not> Bool_Valid (snd (Bool_UnmarshalText ''yes'' (NewBool True)))"
  using Bool_UnmarshalText_grammar [of "''0''" "NewBool True"]
        Bool_UnmarshalText_grammar [of "''1''" "NewBool False"]
        Bool_UnmarshalText_grammar [of "''null''" "NewBool True"]
        Bool_UnmarshalText_grammar [of "''yes''" "NewBool True"]
  by simp

section \<open>The absence predicate\<close>

text \<open>
  Claim C10.  For the optional integer, float and boolean, \<open>IsNil\<close> is true exactly
  when the instance is not present: a present zero integer, a present zero float and a
  present false are not reported as absent.  The optional text differs (a present empty
  string counts as absent), and so do the date and time types (a present zero timestamp
  counts as absent).
\<close>

theorem IsNil_presence:
  "Int_IsNil i = (\<not> Int_Valid i)
   \<and> Float_IsNil f = (\<not> Float_Valid f)
   \<and> Bool_IsNil b = (\<not> Bool_Valid b)
   \<and> \<not> Int_IsNil (NewInt 0)
   \<and> \<not> Float_IsNil (NewFloat 0)
   \<and> \<not> Bool_IsNil (NewBool False)
   \<and> String_IsNil s = (\<not> String_Valid s \<or> String_String s = [])
   \<and> String_IsNil \<lparr>String_String = [], String_Valid = True\<rparr>
   \<and> Time_IsNil local_offset t = (\<not> Time_Valid t \<or> IsZero local_offset (Time_Time t))
   \<and> Date_IsNil local_offset d = (\<not> Date_Valid d \<or> IsZero local_offset (Date_Time d))
   \<and> Time_IsNil local_offset (NewTime zero_Time)
   \<and> Date_IsNil local_offset \<lparr>Date_Time = zero_Time, Date_Valid = True\<rparr>"
  by (simp add: Int_IsNil_def Float_IsNil_def Bool_IsNil_def String_IsNil_def Time_IsNil_def
      Date_IsNil_def NewInt_def NewFloat_def NewBool_def NewTime_def IsZero_def zero_Time_def
      abs_seconds_def offset_of_def daysBefore_def isLeap_def)

theorem IsNil_presence_witness:
  "\<not> Int_IsNil \<lparr>Int_Int64 = 0, Int_Valid = True\<rparr>
   \<and> Int_IsNil \<lparr>Int_Int64 = 7, Int_Valid = False\<rparr>
   \<and> \<not> Float_IsNil \<lparr>Float_Float64 = 0, Float_Valid = True\<rparr>
   \<and> \<not> Bool_IsNil \<lparr>Bool_Bool = False, Bool_Valid = True\<rparr>
   \<and> String_IsNil \<lparr>String_String = [], String_Valid = True\<rparr>
   \<and> \<not> String_IsNil \<lparr>String_String = ''a'', String_Valid = True\<rparr>
   \<and> Time_IsNil 28800 \<lparr>Time_Time = zero_Time, Time_Valid = True\<rparr>
   \<and> Date_IsNil 28800 \<lparr>Date_Time = zero_Time, Date_Valid = True\<rparr>"
  using IsNil_presence [of "\<lparr>Int_Int64 = 0, Int_Valid = True\<rparr>"
          "\<lparr>Float_Float64 = 0, Float_Valid = True\<rparr>" "\<lparr>Bool_Bool = False, Bool_Valid = True\<rparr>"
          "\<lparr>String_String = ''a'', String_Valid = True\<rparr>" 28800
          "\<lparr>Time_Time = zero_Time, Time_Valid = True\<rparr>"
          "\<lparr>Date_Time = zero_Time, Date_Valid = True\<rparr>"]
        IsNil_presence [of "\<lparr>Int_Int64 = 7, Int_Valid = False\<rparr>"
          "\<lparr>Float_Float64 = 0, Float_Valid = True\<rparr>" "\<lparr>Bool_Bool = False, Bool_Valid = True\<rparr>"
          "\<lparr>String_String = ''a'', String_Valid = True\<rparr>" 28800
          "\<lparr>Time_Time = zero_Time, Time_Valid = True\<rparr>"
          "\<lparr>Date_Time = zero_Time, Date_Valid = True\<rparr>"]
  by (simp add: NewTime_def)

section \<open>Floats that JSON cannot write\<close>

text \<open>
  Claim C7.  For a present optional float, \<open>MarshalJSON\<close> fails with the
  unsupported-value error when the value is infinite or not a number, and succeeds with
  the formatted value otherwise; \<open>Value\<close>, the encoding for the storage driver,
  succeeds in both cases and returns the float itself.
\<close>

theorem Float_MarshalJSON_Inf_NaN:
  "Float_Valid f \<Longrightarrow>
     (IsInf (Float_Float64 f) \<or> IsNaN (Float_Float64 f)
        \<longrightarrow> Float_MarshalJSON FF f = Inl UnsupportedValueError)
     \<and> (\<not> IsInf (Float_Float64 f) \<and> \<not> IsNaN (Float_Float64 f)
        \<longrightarrow> Float_MarshalJSON FF f = Inr (FF (Float_Float64 f)))
     \<and> Float_Value f = Inr (DFloat64 (Float_Float64 f))"
  by (simp add: Float_MarshalJSON_def Float_Value_def)

theorem Float_MarshalJSON_Inf_NaN_witness:
  "Float_MarshalJSON FormatFloat_ex (NewFloat 0x7FF0000000000000) = Inl UnsupportedValueError
   \<and> Float_Value (NewFloat 0x7FF0000000000000) = Inr (DFloat64 0x7FF0000000000000)
   \<and> Float_MarshalJSON FormatFloat_ex (NewFloat 0x7FF8000000000001) = Inl UnsupportedValueError
   \<and> Float_Value (NewFloat 0x7FF8000000000001) = Inr (DFloat64 0x7FF8000000000001)
   \<and> Float_MarshalJSON FormatFloat_ex (NewFloat 0x3FF8000000000000) = Inr ''1.5''"
  using Float_MarshalJSON_Inf_NaN [of "NewFloat 0x7FF0000000000000" FormatFloat_ex]
        Float_MarshalJSON_Inf_NaN [of "NewFloat 0x7FF8000000000001" FormatFloat_ex]
        Float_MarshalJSON_Inf_NaN [of "NewFloat 0x3FF8000000000000" FormatFloat_ex]
  by (simp add: NewFloat_def IsInf_def IsNaN_def FormatFloat_ex_def)

section \<open>Decoding \<open>null\<close>\<close>

lemma json_parse_null: "json_parse ''null'' = Some JNull"
  by code_simp

lemma json_Unmarshal_null: "json_Unmarshal PF ''null'' = Inr JNull"
  by (simp add: json_Unmarshal_def json_parse_null)

text \<open>
  Claim C6, as the claim states it: after decoding \<open>null\<close> the instance is the reset
  one, its value the zero of the type.  The optional integer keeps the value it had: a
  present 7 becomes an absent 7, not an absent 0.
\<close>

theorem Int_UnmarshalJSON_null_keeps_value:
  "Int_UnmarshalJSON ParseFloat_ex ''null'' (NewInt 7) = (None, \<lparr>Int_Int64 = 7, Int_Valid = False\<rparr>)
   \<and> \<lparr>Int_Int64 = 7, Int_Valid = False\<rparr> \<noteq> \<lparr>Int_Int64 = 0, Int_Valid = False\<rparr>"
  by (simp add: Int_UnmarshalJSON_def json_Unmarshal_null NewInt_def)

text \<open>
  Claim C6, amended.  For every type and every starting state, decoding the literal
  \<open>null\<close> succeeds and leaves the instance absent, and \<open>MarshalJSON\<close> of the result is
  exactly \<open>null\<close>.  The value is the zero of the type for the optional text (where the
  result is that of \<open>Reset\<close>) and for the date and time types; the optional integer,
  float and boolean keep the value they had.
\<close>

theorem UnmarshalJSON_null:
  "Int_UnmarshalJSON PF ''null'' i = (None, i\<lparr>Int_Valid := False\<rparr>)
   \<and> Int_MarshalJSON (i\<lparr>Int_Valid := False\<rparr>) = Inr ''null''
   \<and> Float_UnmarshalJSON PF ''null'' f = (None, f\<lparr>Float_Valid := False\<rparr>)
   \<and> Float_MarshalJSON FF (f\<lparr>Float_Valid := False\<rparr>) = Inr ''null''
   \<and> Bool_UnmarshalJSON PF ''null'' b = (None, b\<lparr>Bool_Valid := False\<rparr>)
   \<and> Bool_MarshalJSON (b\<lparr>Bool_Valid := False\<rparr>) = Inr ''null''
   \<and> String_UnmarshalJSON ''null'' s = (None, String_Reset s)
   \<and> String_Reset s = \<lparr>String_String = [], String_Valid = False\<rparr>
   \<and> String_MarshalJSON (String_Reset s) = Inr ''null''
   \<and> Time_UnmarshalJSON PF ''null'' t = (None, \<lparr>Time_Time = zero_Time, Time_Valid = False\<rparr>)
   \<and> Time_MarshalJSON \<lparr>Time_Time = zero_Time, Time_Valid = False\<rparr> = Inr ''null''
   \<and> Date_UnmarshalJSON PF ''null'' d = (None, \<lparr>Date_Time = zero_Time, Date_Valid = False\<rparr>)
   \<and> Date_MarshalJSON \<lparr>Date_Time = zero_Time, Date_Valid = False\<rparr> = Inr ''null''"
  by (cases s; cases t; cases d)
     (simp add: Int_UnmarshalJSON_def Float_UnmarshalJSON_def Bool_UnmarshalJSON_def
      String_UnmarshalJSON_def Time_UnmarshalJSON_def Date_UnmarshalJSON_def json_Unmarshal_null
      Int_MarshalJSON_def Float_MarshalJSON_def Bool_MarshalJSON_def String_MarshalJSON_def
      Time_MarshalJSON_def Date_MarshalJSON_def String_Reset_def json_parse_null)

theorem UnmarshalJSON_null_witness:
  "Int_UnmarshalJSON ParseFloat_ex ''null'' \<lparr>Int_Int64 = 7, Int_Valid = True\<rparr>
     = (None, \<lparr>Int_Int64 = 7, Int_Valid = False\<rparr>)
   \<and> Float_UnmarshalJSON ParseFloat_ex ''null'' \<lparr>Float_Float64 = 0x3FF8000000000000, Float_Valid = True\<rparr>
     = (None, \<lparr>Float_Float64 = 0x3FF8000000000000, Float_Valid = False\<rparr>)
   \<and> Bool_UnmarshalJSON ParseFloat_ex ''null'' \<lparr>Bool_Bool = True, Bool_Valid = True\<rparr>
     = (None, \<lparr>Bool_Bool = True, Bool_Valid = False\<rparr>)
   \<and> String_UnmarshalJSON ''null'' \<lparr>String_String = ''a'', String_Valid = True\<rparr>
     = (None, \<lparr>String_String = [], String_Valid = False\<rparr>)
   \<and> Time_UnmarshalJSON ParseFloat_ex ''null'' \<lparr>Time_Time = zero_Time\<lparr>Year := 2024\<rparr>, Time_Valid = True\<rparr>
     = (None, \<lparr>Time_Time = zero_Time, Time_Valid = False\<rparr>)
   \<and> Date_UnmarshalJSON ParseFloat_ex ''null'' \<lparr>Date_Time = zero_Time\<lparr>Year := 2024\<rparr>, Date_Valid = True\<rparr>
     = (None, \<lparr>Date_Time = zero_Time, Date_Valid = False\<rparr>)"
  using UnmarshalJSON_null [of ParseFloat_ex "\<lparr>Int_Int64 = 7, Int_Valid = True\<rparr>"
          "\<lparr>Float_Float64 = 0x3FF8000000000000, Float_Valid = True\<rparr>" FormatFloat_ex
          "\<lparr>Bool_Bool = True, Bool_Valid = True\<rparr>"
          "\<lparr>String_String = ''a'', String_Valid = True\<rparr>"
          "\<lparr>Time_Time = zero_Time\<lparr>Year := 2024\<rparr>, Time_Valid = True\<rparr>"
          "\<lparr>Date_Time = zero_Time\<lparr>Year := 2024\<rparr>, Date_Valid = True\<rparr>"]
  by simp

section \<open>Decoding a JSON object\<close>

text \<open>
  Claim C4.  The claim: for the optional integer, float and boolean, decoding a JSON
  object that holds a present/value pair sets the instance to the decoded pair, the
  presence flag being the flag of the object, also when that flag is false.  The code
  decodes the object into the embedded struct, field \<open>Valid\<close> included, and then
  overwrites \<open>Valid\<close> with \<open>err == nil\<close>: an object whose flag is false leaves the
  instance present.
\<close>

theorem UnmarshalJSON_object_presence_overwritten:
  \<open>Int_UnmarshalJSON ParseFloat_ex ''{"Int64":5,"Valid":false}'' (NewInt 7)
     = (None, \<lparr>Int_Int64 = 5, Int_Valid = True\<rparr>)
   \<and> Float_UnmarshalJSON ParseFloat_ex ''{"Float64":1.5,"Valid":false}'' (NewFloat 0)
     = (None, \<lparr>Float_Float64 = 0x3FF8000000000000, Float_Valid = True\<rparr>)
   \<and> Bool_UnmarshalJSON ParseFloat_ex ''{"Bool":true,"Valid":false}'' (NewBool False)
     = (None, \<lparr>Bool_Bool = True, Bool_Valid = True\<rparr>)\<close>
  by code_simp

text \<open>For every object the decoder accepts, the flag after the call says only whether
  the decoding failed.\<close>

lemma UnmarshalJSON_object_Valid:
  assumes "json_Unmarshal PF data = Inr (JObject kvs)"
  shows "Int_Valid (snd (Int_UnmarshalJSON PF data i)) = (fst (Int_UnmarshalJSON PF data i) = None)"
    and "Float_Valid (snd (Float_UnmarshalJSON PF data f)) = (fst (Float_UnmarshalJSON PF data f) = None)"
    and "Bool_Valid (snd (Bool_UnmarshalJSON PF data b)) = (fst (Bool_UnmarshalJSON PF data b) = None)"
  using assms
  by (simp_all add: Int_UnmarshalJSON_def Float_UnmarshalJSON_def Bool_UnmarshalJSON_def split: prod.splits)

section \<open>Decoding a JSON string\<close>

text \<open>
  Claim C5, as the claim states it: decoding a JSON string \<open>s\<close> gives the state and the
  error of decoding the text \<open>s\<close>.  The JSON string \<open>"0"\<close> gives a present 0 where the
  text \<open>0\<close> gives an absent one, and the JSON string \<open>"TRUE"\<close> is accepted where the
  text \<open>TRUE\<close> is an error.
\<close>

theorem UnmarshalJSON_string_not_text:
  \<open>Int_UnmarshalJSON ParseFloat_ex ''"0"'' (NewInt 7) = (None, \<lparr>Int_Int64 = 0, Int_Valid = True\<rparr>)
   \<and> Int_UnmarshalText ''0'' (NewInt 7) = (None, \<lparr>Int_Int64 = 0, Int_Valid = False\<rparr>)
   \<and> Bool_UnmarshalJSON ParseFloat_ex ''"TRUE"'' (NewBool False) = (None, \<lparr>Bool_Bool = True, Bool_Valid = True\<rparr>)
   \<and> Bool_UnmarshalText ''TRUE'' (NewBool False)
      = (Some (InvalidInput ''invalid input:TRUE''), \<lparr>Bool_Bool = False, Bool_Valid = False\<rparr>)\<close>
  by code_simp

text \<open>
  Claim C5, amended.  Decoding a JSON string \<open>s\<close>: the empty string leaves the instance
  absent and its value as it was; any other string is parsed by \<open>ParseInt\<close>,
  \<open>ParseFloat\<close> or \<open>ParseBool\<close>, the instance being present exactly when the parse
  succeeds.  There is no collapse of a parsed zero and \<open>"null"\<close> is parsed like any
  string.  So for every \<open>s\<close> but \<open>null\<close> the integer and the float get the error and
  the value that decoding the text \<open>s\<close> gives, and the presence flags differ exactly
  when \<open>s\<close> parses to zero; the boolean accepts the empty string and the twelve
  spellings of \<open>ParseBool\<close>, and agrees with the text decoding on \<open>true\<close>, \<open>false\<close>,
  \<open>1\<close> and \<open>0\<close>.
\<close>

lemma ParseInt_null: "ParseInt ''null'' = (0, Some (ErrSyntax ''null''))"
  by code_simp

lemma ParseInt_Nil: "ParseInt [] = (0, Some (ErrSyntax []))"
  by (simp add: ParseInt_def)

theorem UnmarshalJSON_string:
  assumes "json_Unmarshal PF data = Inr (JString s)"
  shows "Int_UnmarshalJSON PF data i =
           (if s = [] then (None, i\<lparr>Int_Valid := False\<rparr>)
            else (snd (ParseInt s), i\<lparr>Int_Int64 := fst (ParseInt s), Int_Valid := (snd (ParseInt s) = None)\<rparr>))
       \<and> (s \<noteq> ''null'' \<longrightarrow>
            fst (Int_UnmarshalJSON PF data i) = fst (Int_UnmarshalText s i)
            \<and> Int_Int64 (snd (Int_UnmarshalJSON PF data i)) = Int_Int64 (snd (Int_UnmarshalText s i))
            \<and> (Int_Valid (snd (Int_UnmarshalJSON PF data i)) \<noteq> Int_Valid (snd (Int_UnmarshalText s i))
                 \<longleftrightarrow> ParseInt s = (0, None)))
       \<and> Float_UnmarshalJSON PF data f =
           (if s = [] then (None, f\<lparr>Float_Valid := False\<rparr>)
            else (snd (PF s), f\<lparr>Float_Float64 := fst (PF s), Float_Valid := (snd (PF s) = None)\<rparr>))
       \<and> (s \<noteq> ''null'' \<longrightarrow>
            fst (Float_UnmarshalJSON PF data f) = fst (Float_UnmarshalText PF s f)
            \<and> Float_Float64 (snd (Float_UnmarshalJSON PF data f)) = Float_Float64 (snd (Float_UnmarshalText PF s f))
            \<and> (Float_Valid (snd (Float_UnmarshalJSON PF data f)) \<noteq> Float_Valid (snd (Float_UnmarshalText PF s f))
                 \<longleftrightarrow> s \<noteq> [] \<and> snd (PF s) = None \<and> \<not> float_ne_zero (fst (PF s))))
       \<and> Bool_UnmarshalJSON PF data b =
           (if s = [] then (None, b\<lparr>Bool_Valid := False\<rparr>)
            else (snd (ParseBool s), b\<lparr>Bool_Bool := fst (ParseBool s), Bool_Valid := (snd (ParseBool s) = None)\<rparr>))
       \<and> (fst (Bool_UnmarshalJSON PF data b) = None \<longleftrightarrow>
            s \<in> {[], ''1'', ''t'', ''T'', ''TRUE'', ''true'', ''True'',
                  ''0'', ''f'', ''F'', ''FALSE'', ''false'', ''False''})
       \<and> (s \<in> {''true'', ''false'', ''1'', ''0''} \<longrightarrow> Bool_UnmarshalJSON PF data b = Bool_UnmarshalText s b)"
proof -
  have I: "Int_UnmarshalJSON PF data i =
           (if s = [] then (None, i\<lparr>Int_Valid := False\<rparr>)
            else (snd (ParseInt s), i\<lparr>Int_Int64 := fst (ParseInt s), Int_Valid := (snd (ParseInt s) = None)\<rparr>))"
    using assms by (simp add: Int_UnmarshalJSON_def split: prod.splits)
  have F: "Float_UnmarshalJSON PF data f =
           (if s = [] then (None, f\<lparr>Float_Valid := False\<rparr>)
            else (snd (PF s), f\<lparr>Float_Float64 := fst (PF s), Float_Valid := (snd (PF s) = None)\<rparr>))"
    using assms by (simp add: Float_UnmarshalJSON_def split: prod.splits)
  have B: "Bool_UnmarshalJSON PF data b =
           (if s = [] then (None, b\<lparr>Bool_Valid := False\<rparr>)
            else (snd (ParseBool s), b\<lparr>Bool_Bool := fst (ParseBool s), Bool_Valid := (snd (ParseBool s) = None)\<rparr>))"
    using assms by (simp add: Bool_UnmarshalJSON_def split: prod.splits)
  have I2: "s \<noteq> ''null'' \<longrightarrow>
            fst (Int_UnmarshalJSON PF data i) = fst (Int_UnmarshalText s i)
            \<and> Int_Int64 (snd (Int_UnmarshalJSON PF data i)) = Int_Int64 (snd (Int_UnmarshalText s i))
            \<and> (Int_Valid (snd (Int_UnmarshalJSON PF data i)) \<noteq> Int_Valid (snd (Int_UnmarshalText s i))
                 \<longleftrightarrow> ParseInt s = (0, None))"
    unfolding I by (cases "ParseInt s") (auto simp: Int_UnmarshalText_def ParseInt_Nil)
  have F2: "s \<noteq> ''null'' \<longrightarrow>
            fst (Float_UnmarshalJSON PF data f) = fst (Float_UnmarshalText PF s f)
            \<and> Float_Float64 (snd (Float_UnmarshalJSON PF data f)) = Float_Float64 (snd (Float_UnmarshalText PF s f))
            \<and> (Float_Valid (snd (Float_UnmarshalJSON PF data f)) \<noteq> Float_Valid (snd (Float_UnmarshalText PF s f))
                 \<longleftrightarrow> s \<noteq> [] \<and> snd (PF s) = None \<and> \<not> float_ne_zero (fst (PF s)))"
    unfolding F by (cases "PF s") (auto simp: Float_UnmarshalText_def)
  have B2: "fst (Bool_UnmarshalJSON PF data b) = None \<longleftrightarrow>
            s \<in> {[], ''1'', ''t'', ''T'', ''TRUE'', ''true'', ''True'',
                  ''0'', ''f'', ''F'', ''FALSE'', ''false'', ''False''}"
    unfolding B by (simp add: ParseBool_def)
  have B3: "s \<in> {''true'', ''false'', ''1'', ''0''} \<longrightarrow> Bool_UnmarshalJSON PF data b = Bool_UnmarshalText s b"
    unfolding B by (cases b) (auto simp: ParseBool_def Bool_UnmarshalText_def)
  show ?thesis using I I2 F F2 B B2 B3 by blast
qed


theorem UnmarshalJSON_string_witness:
  \<open>json_Unmarshal ParseFloat_ex ''"0"'' = Inr (JString ''0'')
   \<and> Int_UnmarshalJSON ParseFloat_ex ''"0"'' (NewInt 7) = (None, \<lparr>Int_Int64 = 0, Int_Valid = True\<rparr>)
   \<and> Float_UnmarshalJSON ParseFloat_ex ''"0"'' (NewFloat 0x3FF8000000000000)
        = (None, \<lparr>Float_Float64 = 0, Float_Valid = True\<rparr>)
   \<and> Bool_UnmarshalJSON ParseFloat_ex ''"0"'' (NewBool True)
        = (None, \<lparr>Bool_Bool = False, Bool_Valid = True\<rparr>)\<close>
proof -
  have h: \<open>json_Unmarshal ParseFloat_ex ''"0"'' = Inr (JString ''0'')\<close>
    by code_simp
  have p: "ParseInt ''0'' = (0, None)"
    by code_simp
  have I: \<open>Int_UnmarshalJSON ParseFloat_ex ''"0"'' (NewInt 7) = (None, \<lparr>Int_Int64 = 0, Int_Valid = True\<rparr>)\<close>
    using UnmarshalJSON_string [OF h, of "NewInt 7"] by (simp add: p NewInt_def)
  have F: \<open>Float_UnmarshalJSON ParseFloat_ex ''"0"'' (NewFloat 0x3FF8000000000000)
        = (None, \<lparr>Float_Float64 = 0, Float_Valid = True\<rparr>)\<close>
    using UnmarshalJSON_string [OF h, of _ "NewFloat 0x3FF8000000000000"]
    by (simp add: ParseFloat_ex_def NewFloat_def)
  have B: \<open>Bool_UnmarshalJSON ParseFloat_ex ''"0"'' (NewBool True)
        = (None, \<lparr>Bool_Bool = False, Bool_Valid = True\<rparr>)\<close>
    using UnmarshalJSON_string [OF h, of _ _ "NewBool True"]
    by (simp add: ParseBool_def NewBool_def)
  show ?thesis using h I F B by blast
qed

section \<open>The collapse of a parsed zero\<close>





section \<open>The text encoding\<close>





section \<open>Digits, literals and layouts\<close>

subsection \<open>Decimal digits\<close>

lemma digit_cases:
  assumes "0 \<le> d" "d < 10"
  shows "d = 0 \<or> d = 1 \<or> d = 2 \<or> d = 3 \<or> d = 4 \<or> d = 5 \<or> d = 6 \<or> d = 7 \<or> d = 8 \<or> d = (9::int)"
  using assms by arith

lemma digitChar_props:
  assumes "0 \<le> d" "d < 10"
  shows "isDigit (digitChar d)" "digitVal (digitChar d) = d" "digitChar d \<noteq> CHR '' ''"
    "digitChar d \<noteq> CHR ''-''" "digitChar d \<noteq> CHR ''+''"
  using digit_cases [OF assms]
  by (auto simp: digitChar_def isDigit_def digitVal_def)

lemma digitChar_zero_iff:
  assumes "0 \<le> d" "d < 10"
  shows "digitChar d = CHR ''0'' \<longleftrightarrow> d = 0"
  using digit_cases [OF assms]
  by (auto simp: digitChar_def)

subsection \<open>Strings that need no escape\<close>

lemma isDigit_htmlSafe: "isDigit c \<Longrightarrow> htmlSafe c"
  by (auto simp: isDigit_def htmlSafe_def)

lemma json_escape_safe: "list_all htmlSafe s \<Longrightarrow> json_escape s = s"
  by (induction s) (auto simp: json_escape.simps htmlSafe_def)

lemma scan_string_safe:
  "list_all htmlSafe s \<Longrightarrow> scan_string (s @ CHR 0x22 # rest) = Some (s, rest)"
  by (induction s) (auto simp: htmlSafe_def)

lemma unquote_safe: "list_all htmlSafe s \<Longrightarrow> unquote s = s"
  by (induction s) (auto simp: unquote.simps htmlSafe_def)

lemma json_parse_Marshal_string:
  assumes "list_all htmlSafe s"
  shows "json_parse (json_Marshal_string s) = Some (JString s)"
  using assms
  by (simp add: json_parse_def json_Marshal_string_def json_escape_safe scan_string_safe
      unquote_safe isSpace_def)

lemma json_Unmarshal_Marshal_string:
  assumes "list_all htmlSafe s"
  shows "json_Unmarshal PF (json_Marshal_string s) = Inr (JString s)"
  by (simp add: json_Unmarshal_def json_parse_Marshal_string [OF assms])


subsection \<open>\<open>FormatInt\<close> and \<open>ParseInt\<close>\<close>

lemma formatBits_small: "n < 10 \<Longrightarrow> formatBits n = [digitChar n]"
  by (simp add: formatBits.simps)

lemma formatBits_large: "10 \<le> n \<Longrightarrow> formatBits n = formatBits (n div 10) @ [digitChar (n mod 10)]"
  by (subst formatBits.simps) simp

lemma formatBits_digits: "0 \<le> n \<Longrightarrow> list_all isDigit (formatBits n)"
proof (induction n rule: formatBits.induct)
  case (1 n)
  show ?case
  proof (cases "n < 10")
    case True
    with 1 show ?thesis by (simp add: formatBits_small digitChar_props)
  next
    case False
    then have "list_all isDigit (formatBits (n div 10))" using 1 by simp
    moreover have "isDigit (digitChar (n mod 10))" by (simp add: digitChar_props)
    ultimately show ?thesis using False by (simp add: formatBits_large)
  qed
qed

lemma formatBits_hd:
  "0 \<le> n \<Longrightarrow> \<exists>c r. formatBits n = c # r \<and> isDigit c \<and> (c = CHR ''0'' \<longrightarrow> r = [])"
proof (induction n rule: formatBits.induct)
  case (1 n)
  show ?case
  proof (cases "n < 10")
    case True
    with 1 show ?thesis by (simp add: formatBits_small digitChar_props)
  next
    case False
    then have "0 \<le> n div 10" by simp
    with 1 False obtain c r where cr: "formatBits (n div 10) = c # r" "isDigit c" "c = CHR ''0'' \<longrightarrow> r = []"
      by auto
    have "c \<noteq> CHR ''0''"
    proof
      assume c0: "c = CHR ''0''"
      then have single: "formatBits (n div 10) = [CHR ''0'']" using cr by simp
      show False
      proof (cases "n div 10 < 10")
        case True
        then have "digitChar (n div 10) = CHR ''0''" using single by (simp add: formatBits_small)
        then have "n div 10 = 0" using True False by (simp add: digitChar_zero_iff)
        then show False using False by simp
      next
        case False
        then have "length (formatBits (n div 10)) \<ge> 2"
          using formatBits_large [of "n div 10"]
          by (cases "formatBits (n div 10 div 10)") (auto simp: formatBits.simps [of "n div 10 div 10"] split: if_splits)
        then show False using single by simp
      qed
    qed
    then show ?thesis using cr False by (simp add: formatBits_large)
  qed
qed

lemma ParseUint_loop_append:
  "ParseUint_loop (xs @ ys) n =
     (case ParseUint_loop xs n of (m, None) \<Rightarrow> ParseUint_loop ys m | (m, Some e) \<Rightarrow> (m, Some e))"
  by (induction xs arbitrary: n) auto

lemma ParseUint_loop_formatBits:
  "0 \<le> n \<Longrightarrow> n \<le> 2 ^ 64 - 1 \<Longrightarrow> ParseUint_loop (formatBits n) 0 = (n, None)"
proof (induction n rule: formatBits.induct)
  case (1 n)
  show ?case
  proof (cases "n < 10")
    case True
    with 1 show ?thesis by (simp add: formatBits_small digitChar_props)
  next
    case False
    then have IH: "ParseUint_loop (formatBits (n div 10)) 0 = (n div 10, None)"
      using 1 by simp
    have d: "isDigit (digitChar (n mod 10))" "digitVal (digitChar (n mod 10)) = n mod 10"
      by (simp_all add: digitChar_props)
    have "n div 10 * 10 + n mod 10 = n" by simp
    moreover have "n div 10 < 1844674407370955162" using 1(3) by simp
    ultimately show ?thesis
      using False 1(3) by (simp add: formatBits_large ParseUint_loop_append IH d)
  qed
qed

lemma ParseInt_FormatInt: "ParseInt (FormatInt v) = (v, None)"
proof (cases "sint v < 0")
  case True
  let ?m = "- sint v"
  have m: "0 \<le> ?m" "?m \<le> 2 ^ 63"
    using True sint_ge [of v] by simp_all
  obtain c r where cr: "formatBits ?m = c # r" "isDigit c"
    using formatBits_hd [OF m(1)] by blast
  have pu: "ParseUint (formatBits ?m) = (?m, None)"
    using ParseUint_loop_formatBits [of ?m] m cr by (simp add: ParseUint_def)
  have "word_of_int (- ?m) = v" by simp
  then show ?thesis
    using True m pu by (simp add: ParseInt_def FormatInt_def)
next
  case False
  let ?m = "sint v"
  have m: "0 \<le> ?m" "?m < 2 ^ 63"
    using False sint_lt [of v] by simp_all
  obtain c r where cr: "formatBits ?m = c # r" "isDigit c"
    using formatBits_hd [OF m(1)] by blast
  have c: "c \<noteq> CHR ''-''" "c \<noteq> CHR ''+''"
    using cr(2) by (auto simp: isDigit_def)
  have pu: "ParseUint (formatBits ?m) = (?m, None)"
    using ParseUint_loop_formatBits [of ?m] m cr by (simp add: ParseUint_def)
  show ?thesis
    using False m pu cr c by (simp add: ParseInt_def FormatInt_def)
qed


subsection \<open>The decoder on the output of \<open>FormatInt\<close>\<close>

lemma all_digits_span:
  "list_all isDigit r \<Longrightarrow> takeWhile isDigit r = r \<and> dropWhile isDigit r = []"
  by (induction r) auto

lemma scan_number_digits:
  assumes "isDigit c" "list_all isDigit r" "c = CHR ''0'' \<longrightarrow> r = []"
  shows "scan_number (c # r) = Some (c # r, [])"
    and "scan_number (CHR ''-'' # c # r) = Some (CHR ''-'' # c # r, [])"
proof -
  have c: "c \<noteq> CHR ''-''" using assms(1) by (auto simp: isDigit_def)
  show "scan_number (c # r) = Some (c # r, [])"
    using assms c by (auto simp: scan_number_def scan_frac_def scan_exp_def all_digits_span Let_def)
  show "scan_number (CHR ''-'' # c # r) = Some (CHR ''-'' # c # r, [])"
    using assms c by (auto simp: scan_number_def scan_frac_def scan_exp_def all_digits_span Let_def)
qed

lemma parse_value_number:
  assumes "isDigit c" "list_all isDigit r" "c = CHR ''0'' \<longrightarrow> r = []"
  shows "parse_value (Suc n) (c # r) = Some (JNumber (c # r), [])"
    and "parse_value (Suc n) (CHR ''-'' # c # r) = Some (JNumber (CHR ''-'' # c # r), [])"
proof -
  have c: "c \<noteq> CHR ''{''" "c \<noteq> CHR ''[''" "c \<noteq> CHR 0x22"
    using assms(1) by (auto simp: isDigit_def)
  show "parse_value (Suc n) (c # r) = Some (JNumber (c # r), [])"
    using assms c scan_number_digits(1) [OF assms] by simp
  show "parse_value (Suc n) (CHR ''-'' # c # r) = Some (JNumber (CHR ''-'' # c # r), [])"
    using scan_number_digits(2) [OF assms] by simp
qed

lemma json_parse_FormatInt: "json_parse (FormatInt v) = Some (JNumber (FormatInt v))"
proof -
  let ?m = "if sint v < 0 then - sint v else sint v"
  have m: "0 \<le> ?m" by simp
  obtain c r where cr: "formatBits ?m = c # r" "isDigit c" "c = CHR ''0'' \<longrightarrow> r = []"
    using formatBits_hd [OF m] by blast
  have r: "list_all isDigit r"
    using formatBits_digits [OF m] cr(1) by simp
  have sp: "\<not> isSpace c" using cr(2) by (auto simp: isDigit_def isSpace_def)
  show ?thesis
  proof (cases "sint v < 0")
    case True
    then have F: "FormatInt v = CHR ''-'' # c # r" using cr(1) by (simp add: FormatInt_def)
    show ?thesis
      unfolding F json_parse_def
      using parse_value_number(2) [OF cr(2) r cr(3)] by (simp add: isSpace_def)
  next
    case False
    then have F: "FormatInt v = c # r" using cr(1) by (simp add: FormatInt_def)
    show ?thesis
      unfolding F json_parse_def
      using parse_value_number(1) [OF cr(2) r cr(3)] sp by simp
  qed
qed


subsection \<open>\<open>Format\<close> and \<open>ParseInLocation\<close> on the layout of \<open>Time\<close>\<close>

lemma digitChar_0: "digitChar 0 = CHR ''0''"
  by (simp add: digitChar_def)

lemma formatBits_2: "10 \<le> n \<Longrightarrow> n < 100 \<Longrightarrow> formatBits n = [digitChar (n div 10), digitChar (n mod 10)]"
  by (simp add: formatBits_large formatBits_small)

lemma div10_facts:
  "(n::int) div 10 div 10 = n div 100" "(n::int) div 10 div 100 = n div 1000"
  using zdiv_zmult2_eq [of 10 n 10] zdiv_zmult2_eq [of 100 n 10] by simp_all

lemma formatBits_3:
  "100 \<le> n \<Longrightarrow> n < 1000 \<Longrightarrow>
   formatBits n = [digitChar (n div 100), digitChar (n div 10 mod 10), digitChar (n mod 10)]"
  by (simp add: formatBits_large [of n] formatBits_2 div10_facts)

lemma formatBits_4:
  "1000 \<le> n \<Longrightarrow> n < 10000 \<Longrightarrow>
   formatBits n = [digitChar (n div 1000), digitChar (n div 100 mod 10), digitChar (n div 10 mod 10),
                   digitChar (n mod 10)]"
  by (simp add: formatBits_large [of n] formatBits_3 div10_facts)

lemma appendInt_2:
  assumes "0 \<le> n" "n < 100"
  shows "appendInt n 2 = [digitChar (n div 10), digitChar (n mod 10)]"
proof (cases "n < 10")
  case True
  with assms show ?thesis by (simp add: appendInt_def formatBits_small digitChar_0)
next
  case False
  with assms show ?thesis by (simp add: appendInt_def formatBits_2)
qed

lemma appendInt_4:
  assumes "0 \<le> n" "n < 10000"
  shows "appendInt n 4 = [digitChar (n div 1000), digitChar (n div 100 mod 10),
                          digitChar (n div 10 mod 10), digitChar (n mod 10)]"
proof -
  consider "n < 10" | "10 \<le> n" "n < 100" | "100 \<le> n" "n < 1000" | "1000 \<le> n"
    by linarith
  then show ?thesis
  proof cases
    case 1
    with assms show ?thesis
      by (simp add: appendInt_def formatBits_small digitChar_0 numeral_eq_Suc)
  next
    case 2
    with assms show ?thesis
      by (simp add: appendInt_def formatBits_2 digitChar_0 numeral_eq_Suc)
  next
    case 3
    with assms show ?thesis
      by (simp add: appendInt_def formatBits_3 digitChar_0 numeral_eq_Suc)
  next
    case 4
    with assms show ?thesis
      by (simp add: appendInt_def formatBits_4)
  qed
qed

lemma layout_chunks_TimeLayOut:
  "layout_chunks [] TimeLayOut =
     [([], Some stdLongYear), (''-'', Some stdZeroMonth), (''-'', Some stdZeroDay),
      ('' '', Some stdHour), ('':'', Some stdZeroMinute), ('':'', Some stdZeroSecond), ([], None)]"
  by code_simp

lemma layout_chunks_DateTimeLayOut:
  "layout_chunks [] DateTimeLayOut =
     [([], Some stdLongYear), (''-'', Some stdZeroMonth), (''-'', Some stdZeroDay), ([], None)]"
  by code_simp

lemma Format_TimeLayOut:
  "Format t TimeLayOut =
     appendInt (Year t) 4 @ ''-'' @ appendInt (Month t) 2 @ ''-'' @ appendInt (Day t) 2 @ '' ''
     @ appendInt (Hour t) 2 @ '':'' @ appendInt (Minute t) 2 @ '':'' @ appendInt (Second t) 2"
  by (simp add: Format_def layout_chunks_TimeLayOut format_std_def)

lemma Format_DateTimeLayOut:
  "Format t DateTimeLayOut =
     appendInt (Year t) 4 @ ''-'' @ appendInt (Month t) 2 @ ''-'' @ appendInt (Day t) 2"
  by (simp add: Format_def layout_chunks_DateTimeLayOut format_std_def)

lemma getnum_two:
  assumes "0 \<le> a" "a < 10" "0 \<le> b" "b < 10"
  shows "getnum (digitChar a # digitChar b # rest) fixed = Some (a * 10 + b, rest)"
  using assms by (simp add: getnum_def isDigitAt_def digitChar_props)

lemma parse_year:
  assumes "0 \<le> a" "a < 10" "0 \<le> b" "b < 10" "0 \<le> c" "c < 10" "0 \<le> d" "d < 10"
  shows "parse_std stdLongYear (digitChar a # digitChar b # digitChar c # digitChar d # rest) t
         = Inr (t\<lparr>Year := ((a * 10 + b) * 10 + c) * 10 + d\<rparr>, rest)"
  using assms by (simp add: parse_std_def isDigitAt_def digitChar_props atoi_digits_def)

lemma skip_simps:
  "skip v [] = Some v"
  "skip (CHR ''-'' # v) ''-'' = Some v"
  "skip (CHR '':'' # v) '':'' = Some v"
  "0 \<le> a \<Longrightarrow> a < 10 \<Longrightarrow> skip (CHR '' '' # digitChar a # v) '' '' = Some (digitChar a # v)"
  by (simp_all add: digitChar_props)

lemma daysIn_le:
  assumes "1 \<le> m" "m \<le> 12"
  shows "daysIn m y \<le> 31"
proof -
  have "m = 1 \<or> m = 2 \<or> m = 3 \<or> m = 4 \<or> m = 5 \<or> m = 6 \<or> m = 7 \<or> m = 8 \<or> m = 9
        \<or> m = 10 \<or> m = 11 \<or> m = 12"
    using assms by arith
  then show ?thesis
    by (auto simp: daysIn_def daysBefore_def)
qed


lemma two_digits:
  assumes "0 \<le> n" "n < 100"
  shows "0 \<le> n div 10" "n div 10 < 10" "0 \<le> n mod 10" "n mod 10 < 10"
        "n div 10 * 10 + n mod 10 = (n::int)"
  using assms by simp_all

lemma four_digits:
  assumes "0 \<le> n" "n < 10000"
  shows "0 \<le> n div 1000" "n div 1000 < 10" "0 \<le> n div 100 mod 10" "n div 100 mod 10 < 10"
        "0 \<le> n div 10 mod 10" "n div 10 mod 10 < 10" "0 \<le> n mod 10" "n mod 10 < 10"
        "((n div 1000 * 10 + n div 100 mod 10) * 10 + n div 10 mod 10) * 10 + n mod 10 = (n::int)"
proof -
  show "0 \<le> n div 1000" "n div 1000 < 10" "0 \<le> n div 100 mod 10" "n div 100 mod 10 < 10"
        "0 \<le> n div 10 mod 10" "n div 10 mod 10 < 10" "0 \<le> n mod 10" "n mod 10 < 10"
    using assms by simp_all
  have a: "n = n div 10 * 10 + n mod 10" by simp
  have b: "n div 10 = n div 100 * 10 + n div 10 mod 10"
    using div10_facts(1) [of n] div_mult_mod_eq [of "n div 10" 10] by simp
  have c: "n div 100 = n div 1000 * 10 + n div 100 mod 10"
    using zdiv_zmult2_eq [of 10 n 100] div_mult_mod_eq [of "n div 100" 10] by simp
  show "((n div 1000 * 10 + n div 100 mod 10) * 10 + n div 10 mod 10) * 10 + n mod 10 = n"
    using a b c by simp
qed

lemma parse_month:
  assumes "0 \<le> a" "a < 10" "0 \<le> b" "b < 10" "1 \<le> a * 10 + b" "a * 10 + b \<le> 12"
  shows "parse_std stdZeroMonth (digitChar a # digitChar b # rest) t
         = Inr (t\<lparr>Month := a * 10 + b\<rparr>, rest)"
  using assms(5,6) by (simp add: parse_std_def getnum_two [OF assms(1-4)])

lemma parse_day:
  assumes "0 \<le> a" "a < 10" "0 \<le> b" "b < 10"
  shows "parse_std stdZeroDay (digitChar a # digitChar b # rest) t
         = Inr (t\<lparr>Day := a * 10 + b\<rparr>, rest)"
  by (simp add: parse_std_def getnum_two [OF assms(1-4)])

lemma parse_hour:
  assumes "0 \<le> a" "a < 10" "0 \<le> b" "b < 10" "a * 10 + b < 24"
  shows "parse_std stdHour (digitChar a # digitChar b # rest) t
         = Inr (t\<lparr>Hour := a * 10 + b\<rparr>, rest)"
  using assms by (simp add: parse_std_def getnum_two [OF assms(1-4)])

lemma parse_minute:
  assumes "0 \<le> a" "a < 10" "0 \<le> b" "b < 10" "a * 10 + b < 60"
  shows "parse_std stdZeroMinute (digitChar a # digitChar b # rest) t
         = Inr (t\<lparr>Minute := a * 10 + b\<rparr>, rest)"
  using assms by (simp add: parse_std_def getnum_two [OF assms(1-4)])

lemma parse_second:
  assumes "0 \<le> a" "a < 10" "0 \<le> b" "b < 10" "a * 10 + b < 60"
  shows "parse_std stdZeroSecond [digitChar a, digitChar b] t
         = Inr (t\<lparr>Second := a * 10 + b\<rparr>, [])"
  using assms by (simp add: parse_std_def getnum_two [OF assms(1-4)])

lemma parse_chunks_digits:
  assumes y: "0 \<le> y1" "y1 < 10" "0 \<le> y2" "y2 < 10" "0 \<le> y3" "y3 < 10" "0 \<le> y4" "y4 < 10"
    and m: "0 \<le> m1" "m1 < 10" "0 \<le> m2" "m2 < 10" "1 \<le> m1 * 10 + m2" "m1 * 10 + m2 \<le> 12"
    and d: "0 \<le> d1" "d1 < 10" "0 \<le> d2" "d2 < 10"
    and h: "0 \<le> h1" "h1 < 10" "0 \<le> h2" "h2 < 10" "h1 * 10 + h2 < 24"
    and n: "0 \<le> n1" "n1 < 10" "0 \<le> n2" "n2 < 10" "n1 * 10 + n2 < 60"
    and s: "0 \<le> s1" "s1 < 10" "0 \<le> s2" "s2 < 10" "s1 * 10 + s2 < 60"
  shows "parse_chunks (layout_chunks [] TimeLayOut)
           (digitChar y1 # digitChar y2 # digitChar y3 # digitChar y4 # CHR ''-''
            # digitChar m1 # digitChar m2 # CHR ''-'' # digitChar d1 # digitChar d2 # CHR '' ''
            # digitChar h1 # digitChar h2 # CHR '':'' # digitChar n1 # digitChar n2 # CHR '':''
            # [digitChar s1, digitChar s2]) t0
         = Inr (t0\<lparr>Year := ((y1 * 10 + y2) * 10 + y3) * 10 + y4, Month := m1 * 10 + m2,
                   Day := d1 * 10 + d2, Hour := h1 * 10 + h2, Minute := n1 * 10 + n2,
                   Second := s1 * 10 + s2\<rparr>)"
  unfolding layout_chunks_TimeLayOut
  by (simp only: parse_chunks.simps skip_simps(1-3) skip_simps(4) [OF h(1,2)]
      parse_year [OF y] parse_month [OF m] parse_day [OF d] parse_hour [OF h] parse_minute [OF n]
      parse_second [OF s] option.case sum.case prod.case if_True if_False refl simp_thms)

lemma ParseInLocation_Format:
  assumes "layout_exact t"
  shows "ParseInLocation TimeLayOut (Format t TimeLayOut) Local = Inr t"
proof -
  have Y: "0 \<le> Year t" "Year t < 10000" using assms by (simp_all add: layout_exact_def)
  have M: "0 \<le> Month t" "Month t < 100" "1 \<le> Month t" "Month t \<le> 12"
    using assms by (simp_all add: layout_exact_def)
  have D: "0 \<le> Day t" "Day t < 100" "1 \<le> Day t" "Day t \<le> daysIn (Month t) (Year t)"
    using assms daysIn_le [of "Month t" "Year t"] by (simp_all add: layout_exact_def)
  have H: "0 \<le> Hour t" "Hour t < 100" "Hour t < 24" using assms by (simp_all add: layout_exact_def)
  have Mi: "0 \<le> Minute t" "Minute t < 100" "Minute t < 60" using assms by (simp_all add: layout_exact_def)
  have S: "0 \<le> Second t" "Second t < 100" "Second t < 60" using assms by (simp_all add: layout_exact_def)
  have N: "Nanosecond t = 0" "Loc t = Local" using assms by (simp_all add: layout_exact_def)
  note y = four_digits [OF Y]
  note m = two_digits [OF M(1,2)]
  note d = two_digits [OF D(1,2)]
  note h = two_digits [OF H(1,2)]
  note mi = two_digits [OF Mi(1,2)]
  note s = two_digits [OF S(1,2)]
  have F: "Format t TimeLayOut =
      digitChar (Year t div 1000) # digitChar (Year t div 100 mod 10) # digitChar (Year t div 10 mod 10)
      # digitChar (Year t mod 10) # CHR ''-'' # digitChar (Month t div 10) # digitChar (Month t mod 10)
      # CHR ''-'' # digitChar (Day t div 10) # digitChar (Day t mod 10)
      # CHR '' '' # digitChar (Hour t div 10) # digitChar (Hour t mod 10)
      # CHR '':'' # digitChar (Minute t div 10) # digitChar (Minute t mod 10)
      # CHR '':'' # [digitChar (Second t div 10), digitChar (Second t mod 10)]"
    by (simp add: Format_TimeLayOut appendInt_4 [OF Y] appendInt_2 [OF M(1,2)] appendInt_2 [OF D(1,2)]
        appendInt_2 [OF H(1,2)] appendInt_2 [OF Mi(1,2)] appendInt_2 [OF S(1,2)])
  have P: "parse_chunks (layout_chunks [] TimeLayOut) (Format t TimeLayOut) t0
           = Inr (t0\<lparr>Year := Year t, Month := Month t, Day := Day t, Hour := Hour t,
                     Minute := Minute t, Second := Second t\<rparr>)" for t0
    unfolding F
    using parse_chunks_digits [OF y(1-8) m(1-4) _ _ d(1-4) h(1-4) _ mi(1-4) _ s(1-4) _, of t0]
          M(3,4) H(3) Mi(3) S(3)
    by (simp only: y(9) m(5) d(5) h(5) mi(5) s(5) simp_thms)
  show ?thesis
    unfolding ParseInLocation_def P
    using D(3,4) M(3) N by (cases t) simp
qed

end
